theory Spec2Isabelle
  imports Complex_Main
begin

section \<open>Data model\<close>

text \<open>
  The interfaces at the head of \<^verbatim>\<open>src/app/lib/analyzer.ts\<close>. A JavaScript string is a
  sequence of code units; a \<^typ>\<open>char\<close> stands for one code unit, since the analyzer only
  counts units and compares them with fixed ASCII characters. The field \<^verbatim>\<open>text\<close> of
  \<^verbatim>\<open>CodeSnippet\<close> is written \<open>text'\<close> and the field \<^verbatim>\<open>notes\<close> of
  \<^verbatim>\<open>FeatureSupport\<close> is written \<open>notes'\<close>: the plain words are keywords.
\<close>

record CodeSnippet =
  text' :: string
  startLine :: int
  matchLine :: int
  matchCol :: int
  matchLength :: int
  matchText :: string

record VersionRecord =
  chrome :: string
  firefox :: string
  safari :: string
  edge :: string
  ie :: string

record FeatureSupport =
  feature :: string
  description :: string
  support :: VersionRecord
  notes' :: "string option"

record DetectedFeature = FeatureSupport +
  codeSnippets :: "CodeSnippet list"

record Summary =
  totalFeatures :: nat
  modernFeatures :: nat
  legacySupport :: bool

record AnalysisResult =
  features :: "DetectedFeature list"
  summary :: Summary
  minimumVersions :: VersionRecord

section \<open>Strings and arrays of the host language\<close>

definition newline :: char where
  "newline = CHR 0x0A"

text \<open>\<^verbatim>\<open>s.split('\n')\<close>: always at least one line, the separators removed.\<close>

fun split_lines :: "string \<Rightarrow> string list" where
  "split_lines [] = [[]]"
| "split_lines (c # cs) =
     (if c = newline then [] # split_lines cs
      else (case split_lines cs of
              l # ls \<Rightarrow> (c # l) # ls
            | [] \<Rightarrow> [[c]]))"

text \<open>\<^verbatim>\<open>lines.join('\n')\<close>.\<close>

fun join_lines :: "string list \<Rightarrow> string" where
  "join_lines [] = []"
| "join_lines [l] = l"
| "join_lines (l # ls) = l @ newline # join_lines ls"

text \<open>
  \<^verbatim>\<open>xs.slice(a, b)\<close> for non-negative \<open>a\<close> and \<open>b\<close>: the elements at the indices from
  \<open>a\<close> up to but excluding \<open>b\<close>, clipped to the array; empty when \<open>b \<le> a\<close>.
\<close>

definition slice :: "'a list \<Rightarrow> nat \<Rightarrow> nat \<Rightarrow> 'a list" where
  "slice xs a b = take (b - a) (drop a xs)"

text \<open>\<^verbatim>\<open>s.startsWith(p)\<close> and \<^verbatim>\<open>s.includes(p)\<close> (written \<open>includes'\<close>).\<close>

fun startsWith :: "string \<Rightarrow> string \<Rightarrow> bool" where
  "startsWith s [] = True"
| "startsWith [] (p # ps) = False"
| "startsWith (c # cs) (p # ps) = (c = p \<and> startsWith cs ps)"

fun includes' :: "string \<Rightarrow> string \<Rightarrow> bool" where
  "includes' [] p = (p = [])"
| "includes' (c # cs) p = (startsWith (c # cs) p \<or> includes' cs p)"

section \<open>The snippet extractor\<close>

text \<open>
  The \<^verbatim>\<open>for\<close> loop of \<^verbatim>\<open>extractSnippet\<close> over the lines still to visit. \<open>i\<close> is the loop
  index, \<open>currentPos\<close> the running offset, and the triple holds the local variables
  \<^verbatim>\<open>startLine\<close>, \<^verbatim>\<open>endLine\<close> and \<^verbatim>\<open>startCol\<close> (written \<open>sLine\<close>, \<open>eLine\<close>, \<open>sCol\<close>, the
  first being also a field name). The \<^verbatim>\<open>break\<close> is the branch that returns.
\<close>

fun find_lines ::
  "nat \<Rightarrow> nat \<Rightarrow> string list \<Rightarrow> nat \<Rightarrow> nat \<Rightarrow> nat \<times> nat \<times> int \<Rightarrow> nat \<times> nat \<times> int" where
  "find_lines start end' [] i currentPos acc = acc"
| "find_lines start end' (l # ls) i currentPos (sLine, eLine, sCol) =
     (let lineLength = length l + 1;
          (sLine', sCol') =
            (if currentPos + lineLength > start \<and> sLine = 0
             then (i + 1, int start - int currentPos)
             else (sLine, sCol))
      in if currentPos + lineLength > end' \<and> eLine = 0
         then (sLine', i + 1, sCol')
         else find_lines start end' ls (i + 1) (currentPos + lineLength)
                (sLine', eLine, sCol'))"

definition extractSnippet :: "string \<Rightarrow> nat \<Rightarrow> nat \<Rightarrow> CodeSnippet" where
  "extractSnippet code start end' =
     (let lines = split_lines code;
          (sLine, eLine, sCol) = find_lines start end' lines 0 0 (0, 0, 0);
          contextStart = max 0 (int sLine - 3);
          contextEnd = min (int (length lines)) (int eLine + 2);
          contextLines = slice lines (nat contextStart) (nat contextEnd)
      in \<lparr> text' = join_lines contextLines,
           startLine = contextStart + 1,
           matchLine = int sLine,
           matchCol = sCol,
           matchLength = int end' - int start,
           matchText = slice code start end' \<rparr>)"

text \<open>
  The cumulative character length of the first \<open>k\<close> lines, each counted with its
  newline, and the property of being the first line whose cumulative length exceeds an
  offset (lines numbered from 0 here).
\<close>

definition cumulative :: "string list \<Rightarrow> nat \<Rightarrow> nat" where
  "cumulative ls k = sum_list (map (\<lambda>l. length l + 1) (take k ls))"


section \<open>The evidence accumulator\<close>

text \<open>
  The two collections local to one call of \<^verbatim>\<open>analyzeCode\<close>:
  \<^verbatim>\<open>detectedFeatures: Set<string>\<close> and \<^verbatim>\<open>featureSnippets: Map<string, Set<CodeSnippet>>\<close>.
  A JavaScript \<^verbatim>\<open>Set\<close> keeps insertion order and compares its elements with SameValueZero:
  strings by value, objects by reference. \<^verbatim>\<open>extractSnippet\<close> returns a new object at
  every call, so the model keeps the snippet objects in a store, addressed by position,
  and a \<^verbatim>\<open>Set<CodeSnippet>\<close> is a list of addresses without repetition.
\<close>

type_synonym ref = nat

record state =
  detectedFeatures :: "string list"
  featureSnippets :: "string \<rightharpoonup> ref list"
  heap :: "CodeSnippet list"

definition initial_state :: state where
  "initial_state = \<lparr> detectedFeatures = [], featureSnippets = Map.empty, heap = [] \<rparr>"

text \<open>\<^verbatim>\<open>Set.prototype.add\<close>, on the elements in insertion order.\<close>

definition set_add :: "'a \<Rightarrow> 'a list \<Rightarrow> 'a list" where
  "set_add x xs = (if x \<in> set xs then xs else xs @ [x])"

text \<open>\<^verbatim>\<open>detectedFeatures.add(featureKey)\<close>.\<close>

definition detect :: "string \<Rightarrow> state \<Rightarrow> state" where
  "detect featureKey st = st\<lparr> detectedFeatures := set_add featureKey (detectedFeatures st) \<rparr>"

text \<open>
  \<^verbatim>\<open>addFeature(featureKey, start, end)\<close>. \<open>None\<close> is \<^verbatim>\<open>null\<close> or \<^verbatim>\<open>undefined\<close>. The new
  snippet object gets the next free address; a key without an entry gets a new empty set
  first.
\<close>

definition addFeature :: "string \<Rightarrow> string \<Rightarrow> nat option \<Rightarrow> nat option \<Rightarrow> state \<Rightarrow> state" where
  "addFeature code featureKey start end' st =
     (let st1 = detect featureKey st
      in case start of
           None \<Rightarrow> st1
         | Some s \<Rightarrow>
             (case end' of
                None \<Rightarrow> st1
              | Some e \<Rightarrow>
                  (let snippets = (case featureSnippets st1 featureKey of
                                     None \<Rightarrow> []
                                   | Some rs \<Rightarrow> rs);
                       snippet = length (heap st1)
                   in st1\<lparr> heap := heap st1 @ [extractSnippet code s e],
                           featureSnippets :=
                             (featureSnippets st1)(featureKey \<mapsto> set_add snippet snippets) \<rparr>)))"

section \<open>Syntax trees and their traversal\<close>

text \<open>
  The parser and the traversal come from the Babel libraries. A node of the tree carries
  its type, its offsets \<^verbatim>\<open>start\<close> and \<^verbatim>\<open>end\<close>, its string-valued properties (\<^verbatim>\<open>name\<close>,
  \<^verbatim>\<open>kind\<close>, \<^verbatim>\<open>operator\<close>, \<^verbatim>\<open>flags\<close>, \<^verbatim>\<open>pattern\<close>, and \<^verbatim>\<open>raw\<close> for \<^verbatim>\<open>extra.raw\<close>), the names
  of its boolean properties that are true (\<^verbatim>\<open>async\<close>, \<^verbatim>\<open>generator\<close>, \<^verbatim>\<open>static\<close>,
  \<^verbatim>\<open>await\<close>, \<^verbatim>\<open>computed\<close>, \<^verbatim>\<open>shorthand\<close>), and its child nodes in the order the
  traversal visits them, each with the name of the property that holds it.
\<close>

datatype node = Node (ntype: string) (nstart: "nat option") (nend: "nat option")
  (nstrs: "(string \<times> string) list") (nflags: "string list") (nkids: "(string \<times> node) list")

definition str_prop :: "node \<Rightarrow> string \<Rightarrow> string option" where
  "str_prop n k = map_of (nstrs n) k"

definition flag :: "node \<Rightarrow> string \<Rightarrow> bool" where
  "flag n k = (k \<in> set (nflags n))"

text \<open>An array-valued property such as \<^verbatim>\<open>params\<close>, and a node-valued one such as \<^verbatim>\<open>callee\<close>.\<close>

definition children :: "node \<Rightarrow> string \<Rightarrow> node list" where
  "children n k = map snd (filter (\<lambda>(r, c). r = k) (nkids n))"

definition child :: "node \<Rightarrow> string \<Rightarrow> node option" where
  "child n k = (case children n k of [] \<Rightarrow> None | c # cs \<Rightarrow> Some c)"

text \<open>The type tests \<^verbatim>\<open>t.isIdentifier(x)\<close>, \<^verbatim>\<open>t.isMemberExpression(x)\<close> and so on.\<close>

definition isType :: "string \<Rightarrow> node \<Rightarrow> bool" where
  "isType ty n = (ntype n = ty)"

definition isTypeOpt :: "string \<Rightarrow> node option \<Rightarrow> bool" where
  "isTypeOpt ty x = (case x of None \<Rightarrow> False | Some n \<Rightarrow> ntype n = ty)"

text \<open>\<^verbatim>\<open>t.isIdentifier(x) && x.name === name\<close>.\<close>

definition isIdentifierNamed :: "string \<Rightarrow> node option \<Rightarrow> bool" where
  "isIdentifierNamed name x =
     (case x of None \<Rightarrow> False
      | Some n \<Rightarrow> ntype n = ''Identifier'' \<and> str_prop n ''name'' = Some name)"

text \<open>
  A scope of the traversal: the type of the node that opens it (\<^verbatim>\<open>scope.block.type\<close>) and
  the enclosing scope (\<^verbatim>\<open>scope.parent\<close>, absent for the scope of the program). A path is
  what a visitor receives: the node and the scope the traversal gives it (\<^verbatim>\<open>path.scope\<close>).
\<close>

datatype scope = Scope (block_type: string) (parent: "scope option")

record path =
  node :: node
  scope :: scope

text \<open>
  Which nodes open a scope, as \<^verbatim>\<open>isScope(node, parent)\<close> of the types library decides it:
  the block that is the body of a function or of a catch clause does not, a pattern
  directly under a function or a catch clause does, and otherwise the scopable types do.
\<close>

definition function_types :: "string list" where
  "function_types = [''FunctionDeclaration'', ''FunctionExpression'', ''ObjectMethod'',
     ''ArrowFunctionExpression'', ''ClassMethod'', ''ClassPrivateMethod'']"

definition pattern_types :: "string list" where
  "pattern_types = [''AssignmentPattern'', ''ArrayPattern'', ''ObjectPattern'']"

definition scopable_types :: "string list" where
  "scopable_types = [''BlockStatement'', ''CatchClause'', ''DoWhileStatement'',
     ''ForInStatement'', ''ForStatement'', ''FunctionDeclaration'', ''FunctionExpression'',
     ''Program'', ''ObjectMethod'', ''SwitchStatement'', ''WhileStatement'',
     ''ArrowFunctionExpression'', ''ClassExpression'', ''ClassDeclaration'',
     ''ForOfStatement'', ''ClassMethod'', ''ClassPrivateMethod'', ''StaticBlock'',
     ''TSModuleBlock'']"

definition isScope :: "string \<Rightarrow> string \<Rightarrow> bool" where
  "isScope ty parent_ty =
     (if ty = ''BlockStatement'' \<and>
         (parent_ty \<in> set function_types \<or> parent_ty = ''CatchClause'') then False
      else if ty \<in> set pattern_types \<and>
         (parent_ty \<in> set function_types \<or> parent_ty = ''CatchClause'') then True
      else ty \<in> set scopable_types)"

text \<open>
  The traversal library decides the scope of a path from the paths above it. A chain
  lists, for a node below the program and each of its ancestors below the program,
  innermost first, the name of the property of the parent that holds the node
  (\<^verbatim>\<open>path.key\<close>, or \<^verbatim>\<open>path.listKey\<close> for a member of an array) and the type of the node. The
  empty chain is the path of the program, which opens a scope.
\<close>

type_synonym chain = "(string \<times> string) list"

definition method_types :: "string list" where
  "method_types = [''ObjectMethod'', ''ClassMethod'', ''ClassPrivateMethod'']"

fun head_type :: "chain \<Rightarrow> string" where
  "head_type [] = ''Program''"
| "head_type ((k, ty) # anc) = ty"

fun is_scope_path :: "chain \<Rightarrow> bool" where
  "is_scope_path [] = True"
| "is_scope_path ((k, ty) # anc) = isScope ty (head_type anc)"

text \<open>
  The getter \<^verbatim>\<open>parent\<close> of a scope, for the scope opened by the path at the head of the
  chain: it walks the paths upward to the nearest one that opens a scope, and steps over a
  method when it comes from the method's key or from its decorators.
\<close>

function scope_parent :: "chain \<Rightarrow> scope option" where
  "scope_parent [] = None"
| "scope_parent ((k, ty) # anc) =
     (if is_scope_path
           (if (k = ''key'' \<or> k = ''decorators'') \<and> head_type anc \<in> set method_types
            then tl anc else anc)
      then Some (Scope
           (head_type
              (if (k = ''key'' \<or> k = ''decorators'') \<and> head_type anc \<in> set method_types
               then tl anc else anc))
           (scope_parent
              (if (k = ''key'' \<or> k = ''decorators'') \<and> head_type anc \<in> set method_types
               then tl anc else anc)))
      else scope_parent
             (if (k = ''key'' \<or> k = ''decorators'') \<and> head_type anc \<in> set method_types
              then tl anc else anc))"
  by pat_completeness auto
termination
  by (relation "measure length") (auto simp: less_Suc_eq_le)

text \<open>
  \<^verbatim>\<open>path.scope\<close> as \<^verbatim>\<open>setScope\<close> computes it: a path that opens a scope has its own, and
  any other path has the scope of its parent path, or of its grandparent path when it is
  the key or a decorator of a method or the discriminant of a switch statement.
\<close>

function path_scope :: "chain \<Rightarrow> scope" where
  "path_scope [] = Scope ''Program'' None"
| "path_scope ((k, ty) # anc) =
     (if is_scope_path ((k, ty) # anc) then Scope ty (scope_parent ((k, ty) # anc))
      else path_scope
             (if ((k = ''key'' \<or> k = ''decorators'') \<and> head_type anc \<in> set method_types) \<or>
                 (k = ''discriminant'' \<and> head_type anc = ''SwitchStatement'')
              then tl anc else anc))"
  by pat_completeness auto
termination
  by (relation "measure length") (auto simp: less_Suc_eq_le)

text \<open>Running the calls of a visitor in order, and a call under a condition.\<close>

definition seq :: "('s \<Rightarrow> 's) list \<Rightarrow> 's \<Rightarrow> 's" where
  "seq fs st = fold (\<lambda>f s. f s) fs st"

definition whenever :: "bool \<Rightarrow> ('s \<Rightarrow> 's) \<Rightarrow> 's \<Rightarrow> 's" where
  "whenever b f st = (if b then f st else st)"

section \<open>The visitors\<close>

text \<open>
  One definition for each entry of the visitor object given to \<^verbatim>\<open>traverse\<close>, under the
  entry's name and in the order of the source. \<open>addAt code p key\<close> is the call
  \<^verbatim>\<open>addFeature(key, path.node.start, path.node.end)\<close>. The parser gives every node the
  properties of its type; a string property that is read but absent counts as empty.
\<close>

definition addAt :: "string \<Rightarrow> path \<Rightarrow> string \<Rightarrow> state \<Rightarrow> state" where
  "addAt code p featureKey = addFeature code featureKey (nstart (node p)) (nend (node p))"

definition sub :: "node option \<Rightarrow> string \<Rightarrow> node option" where
  "sub x k = (case x of None \<Rightarrow> None | Some n \<Rightarrow> child n k)"

definition name_of :: "node option \<Rightarrow> string option" where
  "name_of x = (case x of None \<Rightarrow> None | Some n \<Rightarrow> str_prop n ''name'')"

definition ArrowFunctionExpression :: "string \<Rightarrow> path \<Rightarrow> state \<Rightarrow> state" where
  "ArrowFunctionExpression code p =
     seq [addAt code p ''arrow-function'',
          whenever (list_ex (isType ''AssignmentPattern'') (children (node p) ''params''))
            (addAt code p ''default-parameters''),
          whenever (list_ex (isType ''RestElement'') (children (node p) ''params''))
            (addAt code p ''rest-parameters'')]"

definition VariableDeclaration :: "string \<Rightarrow> path \<Rightarrow> state \<Rightarrow> state" where
  "VariableDeclaration code p =
     seq [whenever (str_prop (node p) ''kind'' = Some ''const'')
            (addAt code p ''const-declaration''),
          whenever (str_prop (node p) ''kind'' = Some ''let'')
            (addAt code p ''let-declaration'')]"

definition TemplateLiteral :: "string \<Rightarrow> path \<Rightarrow> state \<Rightarrow> state" where
  "TemplateLiteral code p = addAt code p ''template-literal''"

definition ObjectPattern :: "string \<Rightarrow> path \<Rightarrow> state \<Rightarrow> state" where
  "ObjectPattern code p = addAt code p ''destructuring''"

definition ArrayPattern :: "string \<Rightarrow> path \<Rightarrow> state \<Rightarrow> state" where
  "ArrayPattern code p = addAt code p ''destructuring''"

definition SpreadElement :: "string \<Rightarrow> path \<Rightarrow> state \<Rightarrow> state" where
  "SpreadElement code p = addAt code p ''spread-operator''"

definition RestElement :: "string \<Rightarrow> path \<Rightarrow> state \<Rightarrow> state" where
  "RestElement code p = addAt code p ''spread-operator''"

text \<open>
  The \<^verbatim>\<open>while (parent)\<close> loop of the \<^verbatim>\<open>AwaitExpression\<close> visitor, from the scope held by
  \<^verbatim>\<open>parent\<close> outward; the result is the final value of \<^verbatim>\<open>isTopLevel\<close>. The visitor
  starts it at \<^verbatim>\<open>path.scope.parent\<close>.
\<close>

fun await_loop :: "scope \<Rightarrow> bool" where
  "await_loop (Scope ty outer) =
     (if ty = ''Program'' then True
      else if ty \<in> set [''FunctionDeclaration'', ''FunctionExpression'',
                        ''ArrowFunctionExpression'', ''ObjectMethod'', ''ClassMethod'']
      then False
      else (case outer of None \<Rightarrow> True | Some sc \<Rightarrow> await_loop sc))"

definition isTopLevel :: "path \<Rightarrow> bool" where
  "isTopLevel p = (case parent (scope p) of None \<Rightarrow> True | Some sc \<Rightarrow> await_loop sc)"

definition AwaitExpression :: "string \<Rightarrow> path \<Rightarrow> state \<Rightarrow> state" where
  "AwaitExpression code p =
     seq [addAt code p ''async-await'',
          whenever (isTopLevel p) (addAt code p ''top-level-await'')]"

definition FunctionDeclaration :: "string \<Rightarrow> path \<Rightarrow> state \<Rightarrow> state" where
  "FunctionDeclaration code p =
     seq [whenever (flag (node p) ''async'') (addAt code p ''async-await''),
          whenever (flag (node p) ''generator'') (addAt code p ''generator-function''),
          whenever (list_ex (isType ''AssignmentPattern'') (children (node p) ''params''))
            (addAt code p ''default-parameters''),
          whenever (list_ex (isType ''RestElement'') (children (node p) ''params''))
            (addAt code p ''rest-parameters'')]"

definition FunctionExpression :: "string \<Rightarrow> path \<Rightarrow> state \<Rightarrow> state" where
  "FunctionExpression code p =
     seq [whenever (flag (node p) ''async'') (addAt code p ''async-await''),
          whenever (flag (node p) ''generator'') (addAt code p ''generator-function''),
          whenever (list_ex (isType ''AssignmentPattern'') (children (node p) ''params''))
            (addAt code p ''default-parameters''),
          whenever (list_ex (isType ''RestElement'') (children (node p) ''params''))
            (addAt code p ''rest-parameters'')]"

definition NewExpression :: "string \<Rightarrow> path \<Rightarrow> state \<Rightarrow> state" where
  "NewExpression code p =
     (let callee = child (node p) ''callee'';
          name = name_of callee;
          arguments = children (node p) ''arguments''
      in seq [whenever (isTypeOpt ''Identifier'' callee)
                (seq [whenever (name = Some ''Promise'') (addAt code p ''promise''),
                      whenever (name = Some ''Map'') (addAt code p ''map-object''),
                      whenever (name = Some ''Set'') (addAt code p ''set-object''),
                      whenever (name = Some ''WeakMap'') (addAt code p ''weakmap''),
                      whenever (name = Some ''WeakSet'') (addAt code p ''weakset''),
                      whenever (name = Some ''WeakRef'') (addAt code p ''weakref''),
                      whenever (name = Some ''FinalizationRegistry'')
                        (addAt code p ''finalizationregistry''),
                      whenever (name = Some ''Proxy'') (addAt code p ''proxy''),
                      whenever (name = Some ''SharedArrayBuffer'')
                        (addAt code p ''sharedarraybuffer''),
                      whenever (name = Some ''BigInt64Array'') (addAt code p ''bigint64array''),
                      whenever (name = Some ''BigUint64Array'')
                        (addAt code p ''biguint64array''),
                      whenever (name = Some ''AggregateError'')
                        (addAt code p ''aggregate-error''),
                      whenever (name = Some ''Error'' \<and> length arguments \<ge> 2)
                        (whenever (isType ''ObjectExpression'' (arguments ! 1))
                           (addAt code p ''error-cause''))]),
              whenever (isTypeOpt ''MemberExpression'' callee \<and>
                        isIdentifierNamed ''Intl'' (sub callee ''object''))
                (whenever (isTypeOpt ''Identifier'' (sub callee ''property''))
                   (seq [whenever (name_of (sub callee ''property'') = Some ''RelativeTimeFormat'')
                           (addAt code p ''intl-relativetimeformat''),
                         whenever (name_of (sub callee ''property'') = Some ''ListFormat'')
                           (addAt code p ''intl-listformat'')]))])"

definition ClassDeclaration :: "string \<Rightarrow> path \<Rightarrow> state \<Rightarrow> state" where
  "ClassDeclaration code p = addAt code p ''class-declaration''"

definition ClassExpression :: "string \<Rightarrow> path \<Rightarrow> state \<Rightarrow> state" where
  "ClassExpression code p = addAt code p ''class-declaration''"

definition ClassProperty :: "string \<Rightarrow> path \<Rightarrow> state \<Rightarrow> state" where
  "ClassProperty code p =
     whenever (flag (node p) ''static'') (addAt code p ''static-class-fields'')"

definition PrivateName :: "string \<Rightarrow> path \<Rightarrow> state \<Rightarrow> state" where
  "PrivateName code p = addAt code p ''private-fields''"

definition ForOfStatement :: "string \<Rightarrow> path \<Rightarrow> state \<Rightarrow> state" where
  "ForOfStatement code p =
     seq [addAt code p ''for-of'',
          whenever (flag (node p) ''await'') (addAt code p ''async-iteration'')]"

definition OptionalMemberExpression :: "string \<Rightarrow> path \<Rightarrow> state \<Rightarrow> state" where
  "OptionalMemberExpression code p = addAt code p ''optional-chaining''"

definition OptionalCallExpression :: "string \<Rightarrow> path \<Rightarrow> state \<Rightarrow> state" where
  "OptionalCallExpression code p = addAt code p ''optional-chaining''"

definition LogicalExpression :: "string \<Rightarrow> path \<Rightarrow> state \<Rightarrow> state" where
  "LogicalExpression code p =
     whenever (str_prop (node p) ''operator'' = Some ''??'')
       (addAt code p ''nullish-coalescing'')"

definition AssignmentExpression :: "string \<Rightarrow> path \<Rightarrow> state \<Rightarrow> state" where
  "AssignmentExpression code p =
     whenever (str_prop (node p) ''operator'' \<in> set [Some ''&&='', Some ''||='', Some ''??=''])
       (addAt code p ''logical-assignment'')"

definition ObjectProperty :: "string \<Rightarrow> path \<Rightarrow> state \<Rightarrow> state" where
  "ObjectProperty code p =
     seq [whenever (flag (node p) ''computed'') (addAt code p ''computed-property''),
          whenever (flag (node p) ''shorthand'') (addAt code p ''shorthand-property'')]"

definition ObjectMethod :: "string \<Rightarrow> path \<Rightarrow> state \<Rightarrow> state" where
  "ObjectMethod code p = detect ''method-definition''"

definition ImportDeclaration :: "string \<Rightarrow> path \<Rightarrow> state \<Rightarrow> state" where
  "ImportDeclaration code p =
     seq [detect ''import-statement'',
          whenever (children (node p) ''attributes'' \<noteq> [])
            (addAt code p ''import-attributes''),
          whenever (children (node p) ''assertions'' \<noteq> [])
            (addAt code p ''import-assertions'')]"

definition ExportNamedDeclaration :: "string \<Rightarrow> path \<Rightarrow> state \<Rightarrow> state" where
  "ExportNamedDeclaration code p = detect ''export-statement''"

definition ExportDefaultDeclaration :: "string \<Rightarrow> path \<Rightarrow> state \<Rightarrow> state" where
  "ExportDefaultDeclaration code p = detect ''export-statement''"

definition Import :: "string \<Rightarrow> path \<Rightarrow> state \<Rightarrow> state" where
  "Import code p = detect ''dynamic-import''"

definition NumericLiteral :: "string \<Rightarrow> path \<Rightarrow> state \<Rightarrow> state" where
  "NumericLiteral code p =
     whenever (case str_prop (node p) ''raw'' of None \<Rightarrow> False | Some raw \<Rightarrow> includes' raw ''_'')
       (detect ''numeric-separators'')"

definition BigIntLiteral :: "string \<Rightarrow> path \<Rightarrow> state \<Rightarrow> state" where
  "BigIntLiteral code p = detect ''bigint''"

definition CallExpression :: "string \<Rightarrow> path \<Rightarrow> state \<Rightarrow> state" where
  "CallExpression code p =
     (let callee = child (node p) ''callee'';
          name = name_of callee;
          object = sub callee ''object'';
          property = sub callee ''property'';
          methodName = name_of property;
          arguments = children (node p) ''arguments''
      in seq [whenever (isTypeOpt ''Identifier'' callee)
                (seq [whenever (name = Some ''Symbol'') (addAt code p ''symbol''),
                      whenever (name = Some ''structuredClone'') (addAt code p ''structuredclone''),
                      whenever (name = Some ''fetch'') (addAt code p ''fetch-api''),
                      whenever (name = Some ''queueMicrotask'') (addAt code p ''queuemicrotask''),
                      whenever (name = Some ''reportError'') (addAt code p ''reporterror''),
                      whenever (name = Some ''AbortController'') (addAt code p ''abortcontroller''),
                      whenever (name = Some ''IntersectionObserver'')
                        (addAt code p ''intersectionobserver''),
                      whenever (name = Some ''MutationObserver'')
                        (addAt code p ''mutationobserver''),
                      whenever (name = Some ''ResizeObserver'') (addAt code p ''resizeobserver''),
                      whenever (name = Some ''URL'') (addAt code p ''url-constructor''),
                      whenever (name = Some ''URLSearchParams'')
                        (addAt code p ''urlsearchparams'')]),
              whenever (isTypeOpt ''MemberExpression'' callee)
                (whenever (isTypeOpt ''Identifier'' property)
                   (seq [whenever (methodName = Some ''find'') (addAt code p ''array-find''),
                         whenever (methodName = Some ''findIndex'') (addAt code p ''array-findindex''),
                         whenever (methodName = Some ''findLast'') (addAt code p ''array-findlast''),
                         whenever (methodName = Some ''findLastIndex'')
                           (addAt code p ''array-findlastindex''),
                         whenever (methodName = Some ''at'')
                           (seq [addAt code p ''array-at'', addAt code p ''string-at'']),
                         whenever (methodName = Some ''includes'')
                           (seq [addAt code p ''array-includes'', addAt code p ''string-includes'']),
                         whenever (methodName = Some ''flat'') (addAt code p ''array-flat''),
                         whenever (methodName = Some ''flatMap'') (addAt code p ''array-flatmap''),
                         whenever (methodName = Some ''startsWith'')
                           (addAt code p ''string-startswith''),
                         whenever (methodName = Some ''endsWith'') (addAt code p ''string-endswith''),
                         whenever (methodName = Some ''repeat'') (addAt code p ''string-repeat''),
                         whenever (methodName = Some ''padStart'') (addAt code p ''string-padstart''),
                         whenever (methodName = Some ''padEnd'') (addAt code p ''string-padend''),
                         whenever (methodName = Some ''replaceAll'')
                           (addAt code p ''string-replaceall''),
                         whenever (methodName = Some ''matchAll'') (addAt code p ''string-matchall''),
                         whenever (methodName = Some ''trimStart'')
                           (addAt code p ''string-trimstart''),
                         whenever (methodName = Some ''trimEnd'') (addAt code p ''string-trimend''),
                         whenever (methodName = Some ''toReversed'')
                           (addAt code p ''array-toreversed''),
                         whenever (methodName = Some ''toSorted'') (addAt code p ''array-tosorted''),
                         whenever (methodName = Some ''toSpliced'')
                           (addAt code p ''array-tospliced''),
                         whenever (methodName = Some ''with'') (addAt code p ''array-with''),
                         whenever (isTypeOpt ''Identifier'' object)
                           (seq [whenever (name_of object = Some ''Array'')
                                   (seq [whenever (methodName = Some ''from'')
                                           (addAt code p ''array-from''),
                                         whenever (methodName = Some ''fromAsync'')
                                           (addAt code p ''array-fromasync'')]),
                                 whenever (name_of object = Some ''Object'')
                                   (seq [whenever (methodName = Some ''assign'')
                                           (addAt code p ''object-assign''),
                                         whenever (methodName = Some ''keys'')
                                           (addAt code p ''object-keys''),
                                         whenever (methodName = Some ''values'')
                                           (addAt code p ''object-values''),
                                         whenever (methodName = Some ''entries'')
                                           (addAt code p ''object-entries''),
                                         whenever (methodName = Some ''fromEntries'')
                                           (addAt code p ''object-fromentries''),
                                         whenever (methodName = Some ''hasOwn'')
                                           (addAt code p ''object-hasown''),
                                         whenever (methodName = Some ''groupBy'')
                                           (addAt code p ''object-groupby'')]),
                                 whenever (name_of object = Some ''Promise'')
                                   (seq [whenever (methodName = Some ''allSettled'')
                                           (addAt code p ''promise-allsettled''),
                                         whenever (methodName = Some ''any'')
                                           (addAt code p ''promise-any'')]),
                                 whenever (name_of object = Some ''Reflect'')
                                   (addAt code p ''reflect''),
                                 whenever (name_of object = Some ''JSON'' \<and>
                                           methodName = Some ''parse'')
                                   (whenever (length arguments \<ge> 3)
                                      (addAt code p ''json-parse-reviver'')),
                                 whenever (name_of object = Some ''Atomics'')
                                   (addAt code p ''atomics''),
                                 whenever (name_of object = Some ''crypto'')
                                   (seq [whenever (methodName = Some ''getRandomValues'')
                                           (addAt code p ''crypto-getrandomvalues''),
                                         whenever (methodName = Some ''randomUUID'')
                                           (addAt code p ''crypto-randomuuid'')]),
                                 whenever (name_of object = Some ''performance'' \<and>
                                           methodName = Some ''now'')
                                   (addAt code p ''performance-now'')]),
                         whenever (methodName = Some ''isWellFormed'')
                           (addAt code p ''string-iswellformed''),
                         whenever (methodName = Some ''toWellFormed'')
                           (addAt code p ''string-towellformed''),
                         whenever (methodName = Some ''at'')
                           (seq [addAt code p ''array-at'', addAt code p ''string-at'',
                                 addAt code p ''typedarray-at'']),
                         whenever (methodName = Some ''with'')
                           (seq [addAt code p ''array-with'',
                                 addAt code p ''typedarray-with''])]))])"

definition MemberExpression :: "string \<Rightarrow> path \<Rightarrow> state \<Rightarrow> state" where
  "MemberExpression code p =
     (let object = child (node p) ''object'';
          property = child (node p) ''property''
      in seq [whenever (isIdentifierNamed ''globalThis'' object) (addAt code p ''globalthis''),
              whenever (isIdentifierNamed ''import'' object \<and> isIdentifierNamed ''meta'' property)
                (addAt code p ''import-meta''),
              whenever (isIdentifierNamed ''localStorage'' object) (addAt code p ''localstorage''),
              whenever (isIdentifierNamed ''sessionStorage'' object)
                (addAt code p ''sessionstorage''),
              whenever (isIdentifierNamed ''indexedDB'' object) (addAt code p ''indexeddb'')])"

definition RegExpLiteral :: "string \<Rightarrow> path \<Rightarrow> state \<Rightarrow> state" where
  "RegExpLiteral code p =
     (let flags = (case str_prop (node p) ''flags'' of None \<Rightarrow> [] | Some f \<Rightarrow> f);
          pattern = (case str_prop (node p) ''pattern'' of None \<Rightarrow> [] | Some pt \<Rightarrow> pt)
      in seq [whenever (includes' flags ''s'') (addAt code p ''regex-s-flag''),
              whenever (includes' flags ''d'') (addAt code p ''regex-match-indices''),
              whenever (includes' flags ''v'') (addAt code p ''regex-v-flag''),
              whenever (includes' pattern ''(?<'') (addAt code p ''regex-named-groups''),
              whenever (includes' pattern ''(?<='' \<or> includes' pattern ''(?<!'')
                (addAt code p ''regex-lookbehind''),
              whenever (includes' pattern (CHR 0x5C # ''p{''))
                (addAt code p ''regex-unicode-property'')])"

definition ClassPrivateMethod :: "string \<Rightarrow> path \<Rightarrow> state \<Rightarrow> state" where
  "ClassPrivateMethod code p = addAt code p ''private-methods''"

text \<open>The visitor object: the entry for a node type, if there is one.\<close>

definition visitors :: "(string \<times> (string \<Rightarrow> path \<Rightarrow> state \<Rightarrow> state)) list" where
  "visitors =
     [(''ArrowFunctionExpression'', ArrowFunctionExpression),
      (''VariableDeclaration'', VariableDeclaration),
      (''TemplateLiteral'', TemplateLiteral),
      (''ObjectPattern'', ObjectPattern),
      (''ArrayPattern'', ArrayPattern),
      (''SpreadElement'', SpreadElement),
      (''RestElement'', RestElement),
      (''AwaitExpression'', AwaitExpression),
      (''FunctionDeclaration'', FunctionDeclaration),
      (''FunctionExpression'', FunctionExpression),
      (''NewExpression'', NewExpression),
      (''ClassDeclaration'', ClassDeclaration),
      (''ClassExpression'', ClassExpression),
      (''ClassProperty'', ClassProperty),
      (''PrivateName'', PrivateName),
      (''ForOfStatement'', ForOfStatement),
      (''OptionalMemberExpression'', OptionalMemberExpression),
      (''OptionalCallExpression'', OptionalCallExpression),
      (''LogicalExpression'', LogicalExpression),
      (''AssignmentExpression'', AssignmentExpression),
      (''ObjectProperty'', ObjectProperty),
      (''ObjectMethod'', ObjectMethod),
      (''ImportDeclaration'', ImportDeclaration),
      (''ExportNamedDeclaration'', ExportNamedDeclaration),
      (''ExportDefaultDeclaration'', ExportDefaultDeclaration),
      (''Import'', Import),
      (''NumericLiteral'', NumericLiteral),
      (''BigIntLiteral'', BigIntLiteral),
      (''CallExpression'', CallExpression),
      (''MemberExpression'', MemberExpression),
      (''RegExpLiteral'', RegExpLiteral),
      (''ClassPrivateMethod'', ClassPrivateMethod)]"

definition visit :: "string \<Rightarrow> path \<Rightarrow> state \<Rightarrow> state" where
  "visit code p st =
     (case map_of visitors (ntype (node p)) of
        None \<Rightarrow> st
      | Some visitor \<Rightarrow> visitor code p st)"

text \<open>
  The traversal: depth first, the visitor of a node before its children, the children in
  order. \<open>anc\<close> is the chain of the parent's path and \<open>key\<close> the property that holds the
  node. \<^verbatim>\<open>traverse(ast, ...)\<close> starts below the \<^verbatim>\<open>File\<close> node the parser returns, at its
  program.
\<close>

fun traverseNode :: "string \<Rightarrow> chain \<Rightarrow> string \<Rightarrow> node \<Rightarrow> state \<Rightarrow> state" where
  "traverseNode code anc key (Node ty s e strs fl kids) st =
     fold (\<lambda>(r, c) st'. traverseNode code ((key, ty) # anc) r c st') kids
       (visit code \<lparr> node = Node ty s e strs fl kids,
                    scope = path_scope ((key, ty) # anc) \<rparr> st)"

definition traverse :: "string \<Rightarrow> node \<Rightarrow> state \<Rightarrow> state" where
  "traverse code ast st =
     (case child ast ''program'' of
        None \<Rightarrow> st
      | Some program \<Rightarrow>
          fold (\<lambda>(r, c) st'. traverseNode code [] r c st') (nkids program)
            (visit code \<lparr> node = program, scope = path_scope [] \<rparr> st))"

section \<open>The feature catalogue\<close>

text \<open>
  The table \<^verbatim>\<open>featureMap\<close>, entry by entry in the order of the source, and the lookup
  \<^verbatim>\<open>featureMap[featureKey]\<close> among the entries, which is \<open>None\<close> for a key without an
  entry. The table is a plain object, so for the name of a property that every object
  inherits the lookup of the source finds the inherited value, which is no descriptor;
  \<open>object_prototype_properties\<close> lists those names. They are not keys of the table, and
  the analysis never records one (\<open>recorded_keys_in_catalogue\<close> below), so on the keys it
  looks up the two lookups agree.
\<close>

definition featureMap_entries :: "(string \<times> FeatureSupport) list" where
  "featureMap_entries =
     [
      (''arrow-function'',
       \<lparr> feature = ''Arrow Functions'',
         description = ''Arrow function expressions (=>)'',
         support = \<lparr> chrome = ''45+'', firefox = ''22+'', safari = ''10+'', edge = ''12+'', ie = ''No'' \<rparr>,
         notes' = None \<rparr>),
      (''const-declaration'',
       \<lparr> feature = ''Const Declaration'',
         description = ''Block-scoped constant declarations'',
         support = \<lparr> chrome = ''49+'', firefox = ''36+'', safari = ''10+'', edge = ''12+'', ie = ''11*'' \<rparr>,
         notes' = Some ''IE11 has partial support'' \<rparr>),
      (''let-declaration'',
       \<lparr> feature = ''Let Declaration'',
         description = ''Block-scoped variable declarations'',
         support = \<lparr> chrome = ''49+'', firefox = ''44+'', safari = ''10+'', edge = ''12+'', ie = ''11*'' \<rparr>,
         notes' = Some ''IE11 has partial support'' \<rparr>),
      (''template-literal'',
       \<lparr> feature = ''Template Literals'',
         description = ''Template literal syntax with ${} interpolation'',
         support = \<lparr> chrome = ''41+'', firefox = ''34+'', safari = ''9+'', edge = ''12+'', ie = ''No'' \<rparr>,
         notes' = None \<rparr>),
      (''destructuring'',
       \<lparr> feature = ''Destructuring Assignment'',
         description = ''Destructuring objects and arrays'',
         support = \<lparr> chrome = ''49+'', firefox = ''41+'', safari = ''8+'', edge = ''14+'', ie = ''No'' \<rparr>,
         notes' = None \<rparr>),
      (''spread-operator'',
       \<lparr> feature = ''Spread Operator'',
         description = ''Spread syntax (...) for arrays and objects'',
         support = \<lparr> chrome = ''46+'', firefox = ''16+'', safari = ''10+'', edge = ''12+'', ie = ''No'' \<rparr>,
         notes' = None \<rparr>),
      (''async-await'',
       \<lparr> feature = ''Async/Await'',
         description = ''Asynchronous function syntax'',
         support = \<lparr> chrome = ''55+'', firefox = ''52+'', safari = ''10.1+'', edge = ''14+'', ie = ''No'' \<rparr>,
         notes' = None \<rparr>),
      (''promise'',
       \<lparr> feature = ''Promises'',
         description = ''Native Promise implementation'',
         support = \<lparr> chrome = ''32+'', firefox = ''29+'', safari = ''7.1+'', edge = ''12+'', ie = ''No'' \<rparr>,
         notes' = None \<rparr>),
      (''class-declaration'',
       \<lparr> feature = ''Classes'',
         description = ''ES6 class syntax'',
         support = \<lparr> chrome = ''49+'', firefox = ''45+'', safari = ''9+'', edge = ''13+'', ie = ''No'' \<rparr>,
         notes' = None \<rparr>),
      (''for-of'',
       \<lparr> feature = ''For...of Loop'',
         description = ''For...of iteration syntax'',
         support = \<lparr> chrome = ''38+'', firefox = ''13+'', safari = ''7+'', edge = ''12+'', ie = ''No'' \<rparr>,
         notes' = None \<rparr>),
      (''optional-chaining'',
       \<lparr> feature = ''Optional Chaining'',
         description = ''Optional chaining operator (?.)'',
         support = \<lparr> chrome = ''80+'', firefox = ''72+'', safari = ''13.1+'', edge = ''80+'', ie = ''No'' \<rparr>,
         notes' = None \<rparr>),
      (''nullish-coalescing'',
       \<lparr> feature = ''Nullish Coalescing'',
         description = ''Nullish coalescing operator (??)'',
         support = \<lparr> chrome = ''80+'', firefox = ''72+'', safari = ''13.1+'', edge = ''80+'', ie = ''No'' \<rparr>,
         notes' = None \<rparr>),
      (''map-object'',
       \<lparr> feature = ''Map Object'',
         description = ''Native Map data structure'',
         support = \<lparr> chrome = ''38+'', firefox = ''13+'', safari = ''7.1+'', edge = ''12+'', ie = ''11+'' \<rparr>,
         notes' = None \<rparr>),
      (''set-object'',
       \<lparr> feature = ''Set Object'',
         description = ''Native Set data structure'',
         support = \<lparr> chrome = ''38+'', firefox = ''13+'', safari = ''7.1+'', edge = ''12+'', ie = ''11+'' \<rparr>,
         notes' = None \<rparr>),
      (''symbol'',
       \<lparr> feature = ''Symbol'',
         description = ''Symbol primitive type'',
         support = \<lparr> chrome = ''38+'', firefox = ''36+'', safari = ''9+'', edge = ''12+'', ie = ''No'' \<rparr>,
         notes' = None \<rparr>),
      (''default-parameters'',
       \<lparr> feature = ''Default Parameters'',
         description = ''Function default parameter values'',
         support = \<lparr> chrome = ''49+'', firefox = ''15+'', safari = ''10+'', edge = ''14+'', ie = ''No'' \<rparr>,
         notes' = None \<rparr>),
      (''rest-parameters'',
       \<lparr> feature = ''Rest Parameters'',
         description = ''Rest parameters (...args)'',
         support = \<lparr> chrome = ''47+'', firefox = ''15+'', safari = ''10+'', edge = ''12+'', ie = ''No'' \<rparr>,
         notes' = None \<rparr>),
      (''computed-property'',
       \<lparr> feature = ''Computed Property Names'',
         description = ''Object computed property names [key]: value'',
         support = \<lparr> chrome = ''47+'', firefox = ''34+'', safari = ''8+'', edge = ''12+'', ie = ''No'' \<rparr>,
         notes' = None \<rparr>),
      (''shorthand-property'',
       \<lparr> feature = ''Shorthand Properties'',
         description = ''Object shorthand property syntax {a, b}'',
         support = \<lparr> chrome = ''43+'', firefox = ''33+'', safari = ''9+'', edge = ''12+'', ie = ''No'' \<rparr>,
         notes' = None \<rparr>),
      (''method-definition'',
       \<lparr> feature = ''Method Definitions'',
         description = ''Object method shorthand {method() {}}'',
         support = \<lparr> chrome = ''39+'', firefox = ''34+'', safari = ''9+'', edge = ''12+'', ie = ''No'' \<rparr>,
         notes' = None \<rparr>),
      (''generator-function'',
       \<lparr> feature = ''Generator Functions'',
         description = ''Generator functions function*'',
         support = \<lparr> chrome = ''39+'', firefox = ''26+'', safari = ''10+'', edge = ''13+'', ie = ''No'' \<rparr>,
         notes' = None \<rparr>),
      (''import-statement'',
       \<lparr> feature = ''ES6 Modules (import)'',
         description = ''ES6 import statements'',
         support = \<lparr> chrome = ''61+'', firefox = ''60+'', safari = ''10.1+'', edge = ''16+'', ie = ''No'' \<rparr>,
         notes' = None \<rparr>),
      (''export-statement'',
       \<lparr> feature = ''ES6 Modules (export)'',
         description = ''ES6 export statements'',
         support = \<lparr> chrome = ''61+'', firefox = ''60+'', safari = ''10.1+'', edge = ''16+'', ie = ''No'' \<rparr>,
         notes' = None \<rparr>),
      (''dynamic-import'',
       \<lparr> feature = ''Dynamic Import'',
         description = ''Dynamic import() syntax'',
         support = \<lparr> chrome = ''63+'', firefox = ''67+'', safari = ''11.1+'', edge = ''79+'', ie = ''No'' \<rparr>,
         notes' = None \<rparr>),
      (''array-from'',
       \<lparr> feature = ''Array.from()'',
         description = ''Array.from() method'',
         support = \<lparr> chrome = ''45+'', firefox = ''32+'', safari = ''9+'', edge = ''12+'', ie = ''No'' \<rparr>,
         notes' = None \<rparr>),
      (''array-find'',
       \<lparr> feature = ''Array.find()'',
         description = ''Array.prototype.find() method'',
         support = \<lparr> chrome = ''45+'', firefox = ''25+'', safari = ''7.1+'', edge = ''12+'', ie = ''No'' \<rparr>,
         notes' = None \<rparr>),
      (''array-findindex'',
       \<lparr> feature = ''Array.findIndex()'',
         description = ''Array.prototype.findIndex() method'',
         support = \<lparr> chrome = ''45+'', firefox = ''25+'', safari = ''7.1+'', edge = ''12+'', ie = ''No'' \<rparr>,
         notes' = None \<rparr>),
      (''array-includes'',
       \<lparr> feature = ''Array.includes()'',
         description = ''Array.prototype.includes() method'',
         support = \<lparr> chrome = ''47+'', firefox = ''43+'', safari = ''9+'', edge = ''14+'', ie = ''No'' \<rparr>,
         notes' = None \<rparr>),
      (''array-flat'',
       \<lparr> feature = ''Array.flat()'',
         description = ''Array.prototype.flat() method'',
         support = \<lparr> chrome = ''69+'', firefox = ''62+'', safari = ''12+'', edge = ''79+'', ie = ''No'' \<rparr>,
         notes' = None \<rparr>),
      (''array-flatmap'',
       \<lparr> feature = ''Array.flatMap()'',
         description = ''Array.prototype.flatMap() method'',
         support = \<lparr> chrome = ''69+'', firefox = ''62+'', safari = ''12+'', edge = ''79+'', ie = ''No'' \<rparr>,
         notes' = None \<rparr>),
      (''object-assign'',
       \<lparr> feature = ''Object.assign()'',
         description = ''Object.assign() method'',
         support = \<lparr> chrome = ''45+'', firefox = ''34+'', safari = ''9+'', edge = ''12+'', ie = ''No'' \<rparr>,
         notes' = None \<rparr>),
      (''object-keys'',
       \<lparr> feature = ''Object.keys()'',
         description = ''Object.keys() method'',
         support = \<lparr> chrome = ''5+'', firefox = ''4+'', safari = ''5+'', edge = ''12+'', ie = ''9+'' \<rparr>,
         notes' = None \<rparr>),
      (''object-values'',
       \<lparr> feature = ''Object.values()'',
         description = ''Object.values() method'',
         support = \<lparr> chrome = ''54+'', firefox = ''47+'', safari = ''10.1+'', edge = ''14+'', ie = ''No'' \<rparr>,
         notes' = None \<rparr>),
      (''object-entries'',
       \<lparr> feature = ''Object.entries()'',
         description = ''Object.entries() method'',
         support = \<lparr> chrome = ''54+'', firefox = ''47+'', safari = ''10.1+'', edge = ''14+'', ie = ''No'' \<rparr>,
         notes' = None \<rparr>),
      (''object-fromentries'',
       \<lparr> feature = ''Object.fromEntries()'',
         description = ''Object.fromEntries() method'',
         support = \<lparr> chrome = ''73+'', firefox = ''63+'', safari = ''12.1+'', edge = ''79+'', ie = ''No'' \<rparr>,
         notes' = None \<rparr>),
      (''string-includes'',
       \<lparr> feature = ''String.includes()'',
         description = ''String.prototype.includes() method'',
         support = \<lparr> chrome = ''41+'', firefox = ''40+'', safari = ''9+'', edge = ''12+'', ie = ''No'' \<rparr>,
         notes' = None \<rparr>),
      (''string-startswith'',
       \<lparr> feature = ''String.startsWith()'',
         description = ''String.prototype.startsWith() method'',
         support = \<lparr> chrome = ''41+'', firefox = ''17+'', safari = ''9+'', edge = ''12+'', ie = ''No'' \<rparr>,
         notes' = None \<rparr>),
      (''string-endswith'',
       \<lparr> feature = ''String.endsWith()'',
         description = ''String.prototype.endsWith() method'',
         support = \<lparr> chrome = ''41+'', firefox = ''17+'', safari = ''9+'', edge = ''12+'', ie = ''No'' \<rparr>,
         notes' = None \<rparr>),
      (''string-repeat'',
       \<lparr> feature = ''String.repeat()'',
         description = ''String.prototype.repeat() method'',
         support = \<lparr> chrome = ''41+'', firefox = ''24+'', safari = ''9+'', edge = ''12+'', ie = ''No'' \<rparr>,
         notes' = None \<rparr>),
      (''string-padstart'',
       \<lparr> feature = ''String.padStart()'',
         description = ''String.prototype.padStart() method'',
         support = \<lparr> chrome = ''57+'', firefox = ''48+'', safari = ''10+'', edge = ''15+'', ie = ''No'' \<rparr>,
         notes' = None \<rparr>),
      (''string-padend'',
       \<lparr> feature = ''String.padEnd()'',
         description = ''String.prototype.padEnd() method'',
         support = \<lparr> chrome = ''57+'', firefox = ''48+'', safari = ''10+'', edge = ''15+'', ie = ''No'' \<rparr>,
         notes' = None \<rparr>),
      (''weakmap'',
       \<lparr> feature = ''WeakMap'',
         description = ''WeakMap data structure'',
         support = \<lparr> chrome = ''36+'', firefox = ''6+'', safari = ''7.1+'', edge = ''12+'', ie = ''11+'' \<rparr>,
         notes' = None \<rparr>),
      (''weakset'',
       \<lparr> feature = ''WeakSet'',
         description = ''WeakSet data structure'',
         support = \<lparr> chrome = ''36+'', firefox = ''34+'', safari = ''9+'', edge = ''12+'', ie = ''No'' \<rparr>,
         notes' = None \<rparr>),
      (''proxy'',
       \<lparr> feature = ''Proxy'',
         description = ''Proxy object for meta-programming'',
         support = \<lparr> chrome = ''49+'', firefox = ''18+'', safari = ''10+'', edge = ''12+'', ie = ''No'' \<rparr>,
         notes' = None \<rparr>),
      (''reflect'',
       \<lparr> feature = ''Reflect'',
         description = ''Reflect global object'',
         support = \<lparr> chrome = ''49+'', firefox = ''42+'', safari = ''10+'', edge = ''12+'', ie = ''No'' \<rparr>,
         notes' = None \<rparr>),
      (''bigint'',
       \<lparr> feature = ''BigInt'',
         description = ''BigInt primitive type'',
         support = \<lparr> chrome = ''67+'', firefox = ''68+'', safari = ''14+'', edge = ''79+'', ie = ''No'' \<rparr>,
         notes' = None \<rparr>),
      (''private-fields'',
       \<lparr> feature = ''Private Class Fields'',
         description = ''Private class fields (#field)'',
         support = \<lparr> chrome = ''74+'', firefox = ''90+'', safari = ''14.1+'', edge = ''79+'', ie = ''No'' \<rparr>,
         notes' = None \<rparr>),
      (''static-class-fields'',
       \<lparr> feature = ''Static Class Fields'',
         description = ''Static class fields'',
         support = \<lparr> chrome = ''72+'', firefox = ''75+'', safari = ''14.1+'', edge = ''79+'', ie = ''No'' \<rparr>,
         notes' = None \<rparr>),
      (''logical-assignment'',
       \<lparr> feature = ''Logical Assignment'',
         description = ''Logical assignment operators (&&=, ||=, ??=)'',
         support = \<lparr> chrome = ''85+'', firefox = ''79+'', safari = ''14+'', edge = ''85+'', ie = ''No'' \<rparr>,
         notes' = None \<rparr>),
      (''numeric-separators'',
       \<lparr> feature = ''Numeric Separators'',
         description = ''Numeric separators (1_000_000)'',
         support = \<lparr> chrome = ''75+'', firefox = ''70+'', safari = ''13+'', edge = ''79+'', ie = ''No'' \<rparr>,
         notes' = None \<rparr>),
      (''top-level-await'',
       \<lparr> feature = ''Top-level Await'',
         description = ''Await expressions at module top level'',
         support = \<lparr> chrome = ''89+'', firefox = ''89+'', safari = ''15+'', edge = ''89+'', ie = ''No'' \<rparr>,
         notes' = None \<rparr>),
      (''regex-named-groups'',
       \<lparr> feature = ''RegExp Named Capture Groups'',
         description = ''Named capture groups in regular expressions (?<name>...)'',
         support = \<lparr> chrome = ''64+'', firefox = ''78+'', safari = ''11.1+'', edge = ''79+'', ie = ''No'' \<rparr>,
         notes' = None \<rparr>),
      (''regex-lookbehind'',
       \<lparr> feature = ''RegExp Lookbehind Assertions'',
         description = ''Lookbehind assertions in regular expressions (?<=...) (?<!...)'',
         support = \<lparr> chrome = ''62+'', firefox = ''78+'', safari = ''16.4+'', edge = ''79+'', ie = ''No'' \<rparr>,
         notes' = None \<rparr>),
      (''regex-unicode-property'',
       \<lparr> feature = ''RegExp Unicode Property Escapes'',
         description = (''Unicode property escapes in regular expressions '' @ [CHR 0x5C] @ ''p{...}''),
         support = \<lparr> chrome = ''64+'', firefox = ''78+'', safari = ''11.1+'', edge = ''79+'', ie = ''No'' \<rparr>,
         notes' = None \<rparr>),
      (''regex-s-flag'',
       \<lparr> feature = ''RegExp dotAll Flag'',
         description = ''Regular expression s flag (dotAll)'',
         support = \<lparr> chrome = ''62+'', firefox = ''78+'', safari = ''11.1+'', edge = ''79+'', ie = ''No'' \<rparr>,
         notes' = None \<rparr>),
      (''globalthis'',
       \<lparr> feature = ''globalThis'',
         description = ''Global object reference'',
         support = \<lparr> chrome = ''71+'', firefox = ''65+'', safari = ''12.1+'', edge = ''79+'', ie = ''No'' \<rparr>,
         notes' = None \<rparr>),
      (''import-meta'',
       \<lparr> feature = ''import.meta'',
         description = ''Module metadata object'',
         support = \<lparr> chrome = ''64+'', firefox = ''62+'', safari = ''11.1+'', edge = ''79+'', ie = ''No'' \<rparr>,
         notes' = None \<rparr>),
      (''array-at'',
       \<lparr> feature = ''Array.at()'',
         description = ''Array.prototype.at() method for relative indexing'',
         support = \<lparr> chrome = ''92+'', firefox = ''90+'', safari = ''15.4+'', edge = ''92+'', ie = ''No'' \<rparr>,
         notes' = None \<rparr>),
      (''string-at'',
       \<lparr> feature = ''String.at()'',
         description = ''String.prototype.at() method for relative indexing'',
         support = \<lparr> chrome = ''92+'', firefox = ''90+'', safari = ''15.4+'', edge = ''92+'', ie = ''No'' \<rparr>,
         notes' = None \<rparr>),
      (''string-replaceall'',
       \<lparr> feature = ''String.replaceAll()'',
         description = ''String.prototype.replaceAll() method'',
         support = \<lparr> chrome = ''85+'', firefox = ''77+'', safari = ''13.1+'', edge = ''85+'', ie = ''No'' \<rparr>,
         notes' = None \<rparr>),
      (''promise-allsettled'',
       \<lparr> feature = ''Promise.allSettled()'',
         description = ''Promise.allSettled() method'',
         support = \<lparr> chrome = ''76+'', firefox = ''71+'', safari = ''13+'', edge = ''79+'', ie = ''No'' \<rparr>,
         notes' = None \<rparr>),
      (''promise-any'',
       \<lparr> feature = ''Promise.any()'',
         description = ''Promise.any() method'',
         support = \<lparr> chrome = ''85+'', firefox = ''79+'', safari = ''14+'', edge = ''85+'', ie = ''No'' \<rparr>,
         notes' = None \<rparr>),
      (''intl-relativetimeformat'',
       \<lparr> feature = ''Intl.RelativeTimeFormat'',
         description = ''Internationalization relative time formatting'',
         support = \<lparr> chrome = ''71+'', firefox = ''65+'', safari = ''14+'', edge = ''79+'', ie = ''No'' \<rparr>,
         notes' = None \<rparr>),
      (''intl-listformat'',
       \<lparr> feature = ''Intl.ListFormat'',
         description = ''Internationalization list formatting'',
         support = \<lparr> chrome = ''72+'', firefox = ''78+'', safari = ''14.1+'', edge = ''79+'', ie = ''No'' \<rparr>,
         notes' = None \<rparr>),
      (''finalizationregistry'',
       \<lparr> feature = ''FinalizationRegistry'',
         description = ''Weak references and finalization'',
         support = \<lparr> chrome = ''84+'', firefox = ''79+'', safari = ''14.1+'', edge = ''84+'', ie = ''No'' \<rparr>,
         notes' = None \<rparr>),
      (''weakref'',
       \<lparr> feature = ''WeakRef'',
         description = ''Weak references'',
         support = \<lparr> chrome = ''84+'', firefox = ''79+'', safari = ''14.1+'', edge = ''84+'', ie = ''No'' \<rparr>,
         notes' = None \<rparr>),
      (''private-methods'',
       \<lparr> feature = ''Private Class Methods'',
         description = ''Private class methods (#method)'',
         support = \<lparr> chrome = ''84+'', firefox = ''90+'', safari = ''15+'', edge = ''84+'', ie = ''No'' \<rparr>,
         notes' = None \<rparr>),
      (''array-findlast'',
       \<lparr> feature = ''Array.findLast()'',
         description = ''Array.prototype.findLast() method'',
         support = \<lparr> chrome = ''97+'', firefox = ''104+'', safari = ''15.4+'', edge = ''97+'', ie = ''No'' \<rparr>,
         notes' = None \<rparr>),
      (''array-findlastindex'',
       \<lparr> feature = ''Array.findLastIndex()'',
         description = ''Array.prototype.findLastIndex() method'',
         support = \<lparr> chrome = ''97+'', firefox = ''104+'', safari = ''15.4+'', edge = ''97+'', ie = ''No'' \<rparr>,
         notes' = None \<rparr>),
      (''structuredclone'',
       \<lparr> feature = ''structuredClone()'',
         description = ''Global structuredClone() function'',
         support = \<lparr> chrome = ''98+'', firefox = ''94+'', safari = ''15.4+'', edge = ''98+'', ie = ''No'' \<rparr>,
         notes' = None \<rparr>),
      (''string-matchall'',
       \<lparr> feature = ''String.matchAll()'',
         description = ''String.prototype.matchAll() method'',
         support = \<lparr> chrome = ''73+'', firefox = ''67+'', safari = ''13+'', edge = ''79+'', ie = ''No'' \<rparr>,
         notes' = None \<rparr>),
      (''array-toreversed'',
       \<lparr> feature = ''Array.toReversed()'',
         description = ''Array.prototype.toReversed() method (immutable reverse)'',
         support = \<lparr> chrome = ''110+'', firefox = ''115+'', safari = ''16+'', edge = ''110+'', ie = ''No'' \<rparr>,
         notes' = None \<rparr>),
      (''array-tosorted'',
       \<lparr> feature = ''Array.toSorted()'',
         description = ''Array.prototype.toSorted() method (immutable sort)'',
         support = \<lparr> chrome = ''110+'', firefox = ''115+'', safari = ''16+'', edge = ''110+'', ie = ''No'' \<rparr>,
         notes' = None \<rparr>),
      (''array-tospliced'',
       \<lparr> feature = ''Array.toSpliced()'',
         description = ''Array.prototype.toSpliced() method (immutable splice)'',
         support = \<lparr> chrome = ''110+'', firefox = ''115+'', safari = ''16+'', edge = ''110+'', ie = ''No'' \<rparr>,
         notes' = None \<rparr>),
      (''array-with'',
       \<lparr> feature = ''Array.with()'',
         description = ''Array.prototype.with() method (immutable element replacement)'',
         support = \<lparr> chrome = ''110+'', firefox = ''115+'', safari = ''16+'', edge = ''110+'', ie = ''No'' \<rparr>,
         notes' = None \<rparr>),
      (''string-trimstart'',
       \<lparr> feature = ''String.trimStart()'',
         description = ''String.prototype.trimStart() method'',
         support = \<lparr> chrome = ''66+'', firefox = ''61+'', safari = ''12+'', edge = ''79+'', ie = ''No'' \<rparr>,
         notes' = None \<rparr>),
      (''string-trimend'',
       \<lparr> feature = ''String.trimEnd()'',
         description = ''String.prototype.trimEnd() method'',
         support = \<lparr> chrome = ''66+'', firefox = ''61+'', safari = ''12+'', edge = ''79+'', ie = ''No'' \<rparr>,
         notes' = None \<rparr>),
      (''object-hasown'',
       \<lparr> feature = ''Object.hasOwn()'',
         description = ''Object.hasOwn() method'',
         support = \<lparr> chrome = ''93+'', firefox = ''92+'', safari = ''15.4+'', edge = ''93+'', ie = ''No'' \<rparr>,
         notes' = None \<rparr>),
      (''object-groupby'',
       \<lparr> feature = ''Object.groupBy()'',
         description = ''Object.groupBy() method'',
         support = \<lparr> chrome = ''117+'', firefox = ''119+'', safari = ''17+'', edge = ''117+'', ie = ''No'' \<rparr>,
         notes' = None \<rparr>),
      (''json-parse-reviver'',
       \<lparr> feature = ''JSON.parse() with source'',
         description = ''JSON.parse() with source text access'',
         support = \<lparr> chrome = ''105+'', firefox = ''No'', safari = ''16+'', edge = ''105+'', ie = ''No'' \<rparr>,
         notes' = None \<rparr>),
      (''temporal'',
       \<lparr> feature = ''Temporal API'',
         description = ''New date/time API (Stage 3)'',
         support = \<lparr> chrome = ''No*'', firefox = ''No*'', safari = ''No*'', edge = ''No*'', ie = ''No'' \<rparr>,
         notes' = Some ''Stage 3 proposal, available behind flags'' \<rparr>),
      (''decorators'',
       \<lparr> feature = ''Decorators'',
         description = ''Class and method decorators'',
         support = \<lparr> chrome = ''120+'', firefox = ''No*'', safari = ''No*'', edge = ''120+'', ie = ''No'' \<rparr>,
         notes' = Some ''Stage 3 proposal with limited support'' \<rparr>),
      (''iterator-helpers'',
       \<lparr> feature = ''Iterator Helpers'',
         description = ''Iterator.prototype methods (map, filter, etc.)'',
         support = \<lparr> chrome = ''122+'', firefox = ''No*'', safari = ''No*'', edge = ''122+'', ie = ''No'' \<rparr>,
         notes' = Some ''Stage 3 proposal'' \<rparr>),
      (''atomics'',
       \<lparr> feature = ''Atomics'',
         description = ''Atomic operations for SharedArrayBuffer'',
         support = \<lparr> chrome = ''68+'', firefox = ''78+'', safari = ''15.2+'', edge = ''79+'', ie = ''No'' \<rparr>,
         notes' = None \<rparr>),
      (''sharedarraybuffer'',
       \<lparr> feature = ''SharedArrayBuffer'',
         description = ''Shared memory between workers'',
         support = \<lparr> chrome = ''68+'', firefox = ''79+'', safari = ''15.2+'', edge = ''79+'', ie = ''No'' \<rparr>,
         notes' = None \<rparr>),
      (''bigint64array'',
       \<lparr> feature = ''BigInt64Array'',
         description = ''Typed array for 64-bit integers'',
         support = \<lparr> chrome = ''67+'', firefox = ''68+'', safari = ''15+'', edge = ''79+'', ie = ''No'' \<rparr>,
         notes' = None \<rparr>),
      (''biguint64array'',
       \<lparr> feature = ''BigUint64Array'',
         description = ''Typed array for 64-bit unsigned integers'',
         support = \<lparr> chrome = ''67+'', firefox = ''68+'', safari = ''15+'', edge = ''79+'', ie = ''No'' \<rparr>,
         notes' = None \<rparr>),
      (''error-cause'',
       \<lparr> feature = ''Error.cause'',
         description = ''Error constructor with cause option'',
         support = \<lparr> chrome = ''93+'', firefox = ''91+'', safari = ''15+'', edge = ''93+'', ie = ''No'' \<rparr>,
         notes' = None \<rparr>),
      (''aggregate-error'',
       \<lparr> feature = ''AggregateError'',
         description = ''Error that wraps multiple errors'',
         support = \<lparr> chrome = ''85+'', firefox = ''79+'', safari = ''14+'', edge = ''85+'', ie = ''No'' \<rparr>,
         notes' = None \<rparr>),
      (''regex-match-indices'',
       \<lparr> feature = ''RegExp Match Indices'',
         description = ''RegExp d flag for match indices'',
         support = \<lparr> chrome = ''90+'', firefox = ''88+'', safari = ''15+'', edge = ''90+'', ie = ''No'' \<rparr>,
         notes' = None \<rparr>),
      (''hashbang'',
       \<lparr> feature = ''Hashbang Grammar'',
         description = ''Shebang (#!) support in modules'',
         support = \<lparr> chrome = ''74+'', firefox = ''67+'', safari = ''13.1+'', edge = ''79+'', ie = ''No'' \<rparr>,
         notes' = None \<rparr>),
      (''import-assertions'',
       \<lparr> feature = ''Import Assertions'',
         description = ''Import with type assertions'',
         support = \<lparr> chrome = ''91+'', firefox = ''No*'', safari = ''No*'', edge = ''91+'', ie = ''No'' \<rparr>,
         notes' = Some ''Being replaced by Import Attributes'' \<rparr>),
      (''import-attributes'',
       \<lparr> feature = ''Import Attributes'',
         description = ''Import with attributes (replaces assertions)'',
         support = \<lparr> chrome = ''123+'', firefox = ''No*'', safari = ''No*'', edge = ''123+'', ie = ''No'' \<rparr>,
         notes' = Some ''Stage 3 proposal'' \<rparr>),
      (''resizable-arraybuffer'',
       \<lparr> feature = ''Resizable ArrayBuffer'',
         description = ''ArrayBuffer.prototype.resize()'',
         support = \<lparr> chrome = ''111+'', firefox = ''No*'', safari = ''16.4+'', edge = ''111+'', ie = ''No'' \<rparr>,
         notes' = None \<rparr>),
      (''async-iteration'',
       \<lparr> feature = ''Async Iteration'',
         description = ''for-await-of loops and async generators'',
         support = \<lparr> chrome = ''63+'', firefox = ''57+'', safari = ''11.1+'', edge = ''79+'', ie = ''No'' \<rparr>,
         notes' = None \<rparr>),
      (''regex-v-flag'',
       \<lparr> feature = ''RegExp v Flag'',
         description = ''RegExp v flag for extended Unicode support'',
         support = \<lparr> chrome = ''112+'', firefox = ''116+'', safari = ''17+'', edge = ''112+'', ie = ''No'' \<rparr>,
         notes' = None \<rparr>),
      (''fetch-api'',
       \<lparr> feature = ''Fetch API'',
         description = ''Modern fetch() for network requests'',
         support = \<lparr> chrome = ''42+'', firefox = ''39+'', safari = ''10.1+'', edge = ''14+'', ie = ''No'' \<rparr>,
         notes' = None \<rparr>),
      (''urlsearchparams'',
       \<lparr> feature = ''URLSearchParams'',
         description = ''URL query string manipulation API'',
         support = \<lparr> chrome = ''49+'', firefox = ''29+'', safari = ''10.1+'', edge = ''17+'', ie = ''No'' \<rparr>,
         notes' = None \<rparr>),
      (''url-constructor'',
       \<lparr> feature = ''URL Constructor'',
         description = ''URL constructor for URL parsing and manipulation'',
         support = \<lparr> chrome = ''32+'', firefox = ''26+'', safari = ''7+'', edge = ''12+'', ie = ''No'' \<rparr>,
         notes' = None \<rparr>),
      (''abortcontroller'',
       \<lparr> feature = ''AbortController'',
         description = ''Abort API for cancelling fetch requests'',
         support = \<lparr> chrome = ''66+'', firefox = ''57+'', safari = ''11.1+'', edge = ''16+'', ie = ''No'' \<rparr>,
         notes' = None \<rparr>),
      (''intersectionobserver'',
       \<lparr> feature = ''IntersectionObserver'',
         description = ''API to observe element visibility changes'',
         support = \<lparr> chrome = ''51+'', firefox = ''55+'', safari = ''12.1+'', edge = ''15+'', ie = ''No'' \<rparr>,
         notes' = None \<rparr>),
      (''mutationobserver'',
       \<lparr> feature = ''MutationObserver'',
         description = ''API to observe DOM mutations'',
         support = \<lparr> chrome = ''26+'', firefox = ''14+'', safari = ''7+'', edge = ''12+'', ie = ''11+'' \<rparr>,
         notes' = None \<rparr>),
      (''resizeobserver'',
       \<lparr> feature = ''ResizeObserver'',
         description = ''API to observe element resize events'',
         support = \<lparr> chrome = ''64+'', firefox = ''69+'', safari = ''13.1+'', edge = ''79+'', ie = ''No'' \<rparr>,
         notes' = None \<rparr>),
      (''array-fromasync'',
       \<lparr> feature = ''Array.fromAsync()'',
         description = ''Create array from async iterable (ES2024)'',
         support = \<lparr> chrome = ''121+'', firefox = ''119+'', safari = ''16.4+'', edge = ''121+'', ie = ''No'' \<rparr>,
         notes' = None \<rparr>),
      (''string-iswellformed'',
       \<lparr> feature = ''String.isWellFormed()'',
         description = ''Check if string is well-formed Unicode (ES2024)'',
         support = \<lparr> chrome = ''111+'', firefox = ''119+'', safari = ''16.4+'', edge = ''111+'', ie = ''No'' \<rparr>,
         notes' = None \<rparr>),
      (''string-towellformed'',
       \<lparr> feature = ''String.toWellFormed()'',
         description = ''Convert to well-formed Unicode string (ES2024)'',
         support = \<lparr> chrome = ''111+'', firefox = ''119+'', safari = ''16.4+'', edge = ''111+'', ie = ''No'' \<rparr>,
         notes' = None \<rparr>),
      (''performance-now'',
       \<lparr> feature = ''performance.now()'',
         description = ''High resolution timestamp API'',
         support = \<lparr> chrome = ''24+'', firefox = ''15+'', safari = ''8+'', edge = ''12+'', ie = ''10+'' \<rparr>,
         notes' = None \<rparr>),
      (''queuemicrotask'',
       \<lparr> feature = ''queueMicrotask()'',
         description = ''Queue a microtask in the event loop'',
         support = \<lparr> chrome = ''71+'', firefox = ''69+'', safari = ''12.1+'', edge = ''79+'', ie = ''No'' \<rparr>,
         notes' = None \<rparr>),
      (''crypto-getrandomvalues'',
       \<lparr> feature = ''crypto.getRandomValues()'',
         description = ''Cryptographically secure random values'',
         support = \<lparr> chrome = ''11+'', firefox = ''26+'', safari = ''6.1+'', edge = ''12+'', ie = ''11+'' \<rparr>,
         notes' = None \<rparr>),
      (''crypto-randomuuid'',
       \<lparr> feature = ''crypto.randomUUID()'',
         description = ''Generate cryptographically secure UUIDs'',
         support = \<lparr> chrome = ''92+'', firefox = ''95+'', safari = ''15.4+'', edge = ''92+'', ie = ''No'' \<rparr>,
         notes' = None \<rparr>),
      (''typedarray-at'',
       \<lparr> feature = ''TypedArray.at()'',
         description = ''Array.at() method for TypedArrays'',
         support = \<lparr> chrome = ''92+'', firefox = ''90+'', safari = ''15.4+'', edge = ''92+'', ie = ''No'' \<rparr>,
         notes' = None \<rparr>),
      (''typedarray-with'',
       \<lparr> feature = ''TypedArray.with()'',
         description = ''Array.with() method for TypedArrays'',
         support = \<lparr> chrome = ''110+'', firefox = ''115+'', safari = ''16+'', edge = ''110+'', ie = ''No'' \<rparr>,
         notes' = None \<rparr>),
      (''localstorage'',
       \<lparr> feature = ''localStorage'',
         description = ''Local storage web API'',
         support = \<lparr> chrome = ''4+'', firefox = ''3.5+'', safari = ''4+'', edge = ''12+'', ie = ''8+'' \<rparr>,
         notes' = None \<rparr>),
      (''sessionstorage'',
       \<lparr> feature = ''sessionStorage'',
         description = ''Session storage web API'',
         support = \<lparr> chrome = ''5+'', firefox = ''2+'', safari = ''4+'', edge = ''12+'', ie = ''8+'' \<rparr>,
         notes' = None \<rparr>),
      (''indexeddb'',
       \<lparr> feature = ''IndexedDB'',
         description = ''Client-side database API'',
         support = \<lparr> chrome = ''24+'', firefox = ''16+'', safari = ''7+'', edge = ''12+'', ie = ''10+'' \<rparr>,
         notes' = None \<rparr>),
      (''reporterror'',
       \<lparr> feature = ''reportError()'',
         description = ''Report unhandled exceptions to global error handlers'',
         support = \<lparr> chrome = ''95+'', firefox = ''93+'', safari = ''15.4+'', edge = ''95+'', ie = ''No'' \<rparr>,
         notes' = None \<rparr>)]"

definition featureMap :: "string \<rightharpoonup> FeatureSupport" where
  "featureMap = map_of featureMap_entries"

definition object_prototype_properties :: "string list" where
  "object_prototype_properties =
     [''constructor'', ''hasOwnProperty'', ''isPrototypeOf'', ''propertyIsEnumerable'',
      ''toLocaleString'', ''toString'', ''valueOf'', ''__proto__'', ''__defineGetter__'',
      ''__defineSetter__'', ''__lookupGetter__'', ''__lookupSetter__'']"

definition catalogue_keys :: "string list" where
  "catalogue_keys = map fst featureMap_entries"

definition catalogue_supports :: "VersionRecord list" where
  "catalogue_supports = map (\<lambda>(k, fs). support fs) featureMap_entries"

section \<open>Numbers of the host language\<close>

text \<open>
  The version arithmetic of \<^verbatim>\<open>calculateMinimumVersions\<close> goes through \<^verbatim>\<open>parseFloat\<close>,
  \<^verbatim>\<open>Math.max\<close> and \<^verbatim>\<open>Number.prototype.toString\<close>, on doubles. The model is exact instead:
  \<open>Dec m k\<close> is the decimal fraction \<open>m / 10 ^ k\<close>. It agrees with the doubles on reading,
  comparing and printing for decimals of at most 15 significant digits that are zero or at
  least \<open>10 ^ -6\<close> and below \<open>10 ^ 21\<close>: a double holds each of them apart from the others
  and prints it back as its shortest decimal, without an exponent. Outside that range
  (longer digit strings, which a double rounds) the model is not the source. Every version
  string of the catalogue has at most five characters, and the properties below are
  stated for features whose support records are the catalogue's.
\<close>

datatype jsnum = NaN | NegInfinity | Dec nat nat

definition isDigit :: "char \<Rightarrow> bool" where
  "isDigit c = (c \<in> set ''0123456789'')"

definition digit_of :: "char \<Rightarrow> nat" where
  "digit_of c = of_char c - 48"

definition digit_char :: "nat \<Rightarrow> char" where
  "digit_char d = char_of (48 + d)"

definition digits_val :: "string \<Rightarrow> nat" where
  "digits_val ds = foldl (\<lambda>a c. 10 * a + digit_of c) 0 ds"

text \<open>\<^verbatim>\<open>version.replace(/[^0-9.]/g, '')\<close>.\<close>

definition strip_non_numeric :: "string \<Rightarrow> string" where
  "strip_non_numeric version = filter (\<lambda>c. isDigit c \<or> c = CHR ''.'') version"

text \<open>
  \<^verbatim>\<open>parseFloat\<close> on a string of digits and periods: the longest prefix that is a decimal
  literal (digits, then optionally a period and digits, at least one digit in all), or
  \<^verbatim>\<open>NaN\<close> when there is none.
\<close>

definition parseFloat :: "string \<Rightarrow> jsnum" where
  "parseFloat s =
     (let ip = takeWhile isDigit s;
          rest = dropWhile isDigit s;
          fp = (case rest of
                  [] \<Rightarrow> []
                | c # r \<Rightarrow> if c = CHR ''.'' then takeWhile isDigit r else [])
      in if ip = [] \<and> fp = [] then NaN
         else Dec (digits_val (ip @ fp)) (length fp))"

definition isNaN :: "jsnum \<Rightarrow> bool" where
  "isNaN v = (v = NaN)"

text \<open>The order of the numbers, and \<^verbatim>\<open>Math.max\<close> of the elements of an array.\<close>

fun num_less :: "jsnum \<Rightarrow> jsnum \<Rightarrow> bool" where
  "num_less (Dec m1 k1) (Dec m2 k2) = (m1 * 10 ^ k2 < m2 * 10 ^ k1)"
| "num_less NegInfinity (Dec m k) = True"
| "num_less a b = False"

definition max2 :: "jsnum \<Rightarrow> jsnum \<Rightarrow> jsnum" where
  "max2 a b = (if a = NaN \<or> b = NaN then NaN else if num_less a b then b else a)"

definition Math_max :: "jsnum list \<Rightarrow> jsnum" where
  "Math_max vs = foldl max2 NegInfinity vs"

text \<open>
  \<^verbatim>\<open>toString\<close>: the integer part, and when the fraction is not zero a period and the
  fraction without its trailing zeros.
\<close>

fun nat_to_string :: "nat \<Rightarrow> string" where
  "nat_to_string n =
     (if n < 10 then [digit_char n]
      else nat_to_string (n div 10) @ [digit_char (n mod 10)])"

fun fraction_digits :: "nat \<Rightarrow> nat \<Rightarrow> string" where
  "fraction_digits 0 f = []"
| "fraction_digits (Suc k) f =
     fraction_digits k (f div 10) @ [digit_char (f mod 10)]"

definition drop_trailing_zeros :: "string \<Rightarrow> string" where
  "drop_trailing_zeros ds = rev (dropWhile (\<lambda>c. c = CHR ''0'') (rev ds))"

fun number_toString :: "jsnum \<Rightarrow> string" where
  "number_toString NaN = ''NaN''"
| "number_toString NegInfinity = ''-Infinity''"
| "number_toString (Dec m k) =
     (if m mod 10 ^ k = 0 then nat_to_string (m div 10 ^ k)
      else nat_to_string (m div 10 ^ k) @ ''.'' @
           drop_trailing_zeros (fraction_digits k (m mod 10 ^ k)))"

text \<open>The value of a number as a rational, to state what the maximum is.\<close>

fun num_val :: "jsnum \<Rightarrow> rat" where
  "num_val (Dec m k) = of_nat m / 10 ^ k"
| "num_val v = 0"

section \<open>The aggregator\<close>

text \<open>\<^verbatim>\<open>.filter(Boolean)\<close> on the array of features and nulls.\<close>

fun filter_Boolean :: "'a option list \<Rightarrow> 'a list" where
  "filter_Boolean [] = []"
| "filter_Boolean (None # xs) = filter_Boolean xs"
| "filter_Boolean (Some x # xs) = x # filter_Boolean xs"

text \<open>
  The callback of \<^verbatim>\<open>.map\<close> in the construction of \<^verbatim>\<open>features\<close>, and the construction.
  \<^verbatim>\<open>Array.from(snippets)\<close> lists the objects of the set in insertion order.
\<close>

definition buildFeature :: "state \<Rightarrow> string \<Rightarrow> DetectedFeature option" where
  "buildFeature st featureKey =
     (case featureMap featureKey of
        None \<Rightarrow> None
      | Some featureSupport \<Rightarrow>
          Some \<lparr> feature = feature featureSupport,
                 description = description featureSupport,
                 support = support featureSupport,
                 notes' = notes' featureSupport,
                 codeSnippets = (case featureSnippets st featureKey of
                                   None \<Rightarrow> []
                                 | Some snippets \<Rightarrow> map (\<lambda>r. heap st ! r) snippets) \<rparr>)"

definition buildFeatures :: "state \<Rightarrow> DetectedFeature list" where
  "buildFeatures st = filter_Boolean (map (buildFeature st) (detectedFeatures st))"

definition countModernFeatures :: "DetectedFeature list \<Rightarrow> nat" where
  "countModernFeatures fs =
     length (filter (\<lambda>f. ie (support f) = ''No'' \<or> includes' (ie (support f)) ''*'') fs)"

definition allLegacySupport :: "DetectedFeature list \<Rightarrow> bool" where
  "allLegacySupport fs = list_all (\<lambda>f. ie (support f) \<noteq> ''No'') fs"

text \<open>
  The body of \<^verbatim>\<open>browsers.forEach\<close> in \<^verbatim>\<open>calculateMinimumVersions\<close> for one browser, given
  as the selector of its slot, and the record the function returns.
\<close>

definition slotVersions :: "(VersionRecord \<Rightarrow> string) \<Rightarrow> DetectedFeature list \<Rightarrow> jsnum list" where
  "slotVersions browser fs =
     filter (\<lambda>version. \<not> isNaN version)
       (map (\<lambda>version. parseFloat (strip_non_numeric version))
          (filter (\<lambda>version. version \<noteq> ''No'')
             (map (\<lambda>f. browser (support f)) fs)))"

definition minimumVersion :: "(VersionRecord \<Rightarrow> string) \<Rightarrow> DetectedFeature list \<Rightarrow> string" where
  "minimumVersion browser fs =
     (let versions = slotVersions browser fs
      in if length versions = 0 then ''No''
         else number_toString (Math_max versions) @ ''+'')"

definition calculateMinimumVersions :: "DetectedFeature list \<Rightarrow> VersionRecord" where
  "calculateMinimumVersions fs =
     \<lparr> chrome = minimumVersion chrome fs,
       firefox = minimumVersion firefox fs,
       safari = minimumVersion safari fs,
       edge = minimumVersion edge fs,
       ie = minimumVersion ie fs \<rparr>"

section \<open>The analysis\<close>

text \<open>
  What the libraries throw: an \<^verbatim>\<open>Error\<close> object with its message, or any other value.
  The parser is a parameter of the analysis: it returns the tree or throws. So is the
  part of the traversal library that can throw on a tree the parser accepts: while it
  builds the scopes it registers the declarations of the tree and refuses some (a
  duplicate declaration, for one). \<open>crawl ast\<close> is what it throws for the tree, if anything.
\<close>

datatype thrown = Error string | NotAnError

text \<open>The result built from the final state of the accumulator.\<close>

definition buildResult :: "state \<Rightarrow> AnalysisResult" where
  "buildResult st =
     (let fs = buildFeatures st
      in \<lparr> features = fs,
           summary = \<lparr> totalFeatures = length fs,
                       modernFeatures = countModernFeatures fs,
                       legacySupport = allLegacySupport fs \<rparr>,
           minimumVersions = calculateMinimumVersions fs \<rparr>)"

text \<open>The state before the parser runs: the check for a leading \<^verbatim>\<open>#!\<close>.\<close>

definition hashbang :: "string \<Rightarrow> state" where
  "hashbang code =
     (if startsWith code ''#!'' then addFeature code ''hashbang'' (Some 0) (Some 2) initial_state
      else initial_state)"

text \<open>
  The message of the error that the \<^verbatim>\<open>catch\<close> of \<^verbatim>\<open>analyzeCode\<close> throws for a value thrown
  anywhere in its \<^verbatim>\<open>try\<close> block.
\<close>

definition failure_message :: "thrown \<Rightarrow> string" where
  "failure_message error =
     ''Failed to parse JavaScript code: '' @
     (case error of Error message \<Rightarrow> message | NotAnError \<Rightarrow> ''Unknown error'')"

text \<open>
  The part of \<^verbatim>\<open>analyzeCode\<close> that follows a parse and a traversal that do not throw, and
  \<^verbatim>\<open>analyzeCode\<close> itself: \<open>Inl\<close> carries the message of the error the call is rejected
  with. The parse and the traversal are in the one \<^verbatim>\<open>try\<close> block, and nothing of a call
  that throws is returned.
\<close>

definition analyzeTree :: "string \<Rightarrow> node \<Rightarrow> AnalysisResult" where
  "analyzeTree code ast = buildResult (traverse code ast (hashbang code))"

definition analyzeCode ::
  "(string \<Rightarrow> thrown + node) \<Rightarrow> (node \<Rightarrow> thrown option) \<Rightarrow> string \<Rightarrow> string + AnalysisResult" where
  "analyzeCode parse crawl code =
     (case parse code of
        Inl error \<Rightarrow> Inl (failure_message error)
      | Inr ast \<Rightarrow>
          (case crawl ast of
             Some error \<Rightarrow> Inl (failure_message error)
           | None \<Rightarrow> Inr (analyzeTree code ast)))"

section \<open>Parsed trees of the scenarios\<close>

text \<open>
  The trees the parser returns for three inputs, with the offsets of every node:
  \<^verbatim>\<open>async function f() { await g(); }\<close>, \<^verbatim>\<open>await g();\<close> and \<^verbatim>\<open>arr.at(0)\<close>; and for the
  empty input.
\<close>

definition async_function_code :: string where
  "async_function_code = ''async function f() { await g(); }''"

definition async_function_ast :: node where
  "async_function_ast =
     Node ''File'' (Some 0) (Some 33) [] []
       [(''program'',
         Node ''Program'' (Some 0) (Some 33) [(''sourceType'', ''module'')] []
           [(''body'',
             Node ''FunctionDeclaration'' (Some 0) (Some 33) [] [''async'']
               [(''id'', Node ''Identifier'' (Some 15) (Some 16) [(''name'', ''f'')] [] []),
                (''body'',
                 Node ''BlockStatement'' (Some 19) (Some 33) [] []
                   [(''body'',
                     Node ''ExpressionStatement'' (Some 21) (Some 31) [] []
                       [(''expression'',
                         Node ''AwaitExpression'' (Some 21) (Some 30) [] []
                           [(''argument'',
                             Node ''CallExpression'' (Some 27) (Some 30) [] []
                               [(''callee'',
                                 Node ''Identifier'' (Some 27) (Some 28)
                                   [(''name'', ''g'')] [] [])])])])])])])]"

definition top_await_code :: string where
  "top_await_code = ''await g();''"

definition top_await_ast :: node where
  "top_await_ast =
     Node ''File'' (Some 0) (Some 10) [] []
       [(''program'',
         Node ''Program'' (Some 0) (Some 10) [(''sourceType'', ''module'')] []
           [(''body'',
             Node ''ExpressionStatement'' (Some 0) (Some 10) [] []
               [(''expression'',
                 Node ''AwaitExpression'' (Some 0) (Some 9) [] []
                   [(''argument'',
                     Node ''CallExpression'' (Some 6) (Some 9) [] []
                       [(''callee'',
                         Node ''Identifier'' (Some 6) (Some 7)
                           [(''name'', ''g'')] [] [])])])])])]"

definition arr_at_code :: string where
  "arr_at_code = ''arr.at(0)''"

definition arr_at_ast :: node where
  "arr_at_ast =
     Node ''File'' (Some 0) (Some 9) [] []
       [(''program'',
         Node ''Program'' (Some 0) (Some 9) [(''sourceType'', ''module'')] []
           [(''body'',
             Node ''ExpressionStatement'' (Some 0) (Some 9) [] []
               [(''expression'',
                 Node ''CallExpression'' (Some 0) (Some 9) [] []
                   [(''callee'',
                     Node ''MemberExpression'' (Some 0) (Some 6) [] []
                       [(''object'',
                         Node ''Identifier'' (Some 0) (Some 3) [(''name'', ''arr'')] [] []),
                        (''property'',
                         Node ''Identifier'' (Some 4) (Some 6) [(''name'', ''at'')] [] [])]),
                    (''arguments'',
                     Node ''NumericLiteral'' (Some 7) (Some 8) [(''raw'', ''0'')] [] [])])])])]"

definition empty_ast :: node where
  "empty_ast =
     Node ''File'' (Some 0) (Some 0) [] []
       [(''program'', Node ''Program'' (Some 0) (Some 0) [(''sourceType'', ''module'')] [] [])]"

text \<open>The trees for \<^verbatim>\<open>const h = async () => { await g(); };\<close> and for \<^verbatim>\<open>1n\<close>.\<close>

definition arrow_await_code :: string where
  "arrow_await_code = ''const h = async () => { await g(); };''"

definition arrow_await_ast :: node where
  "arrow_await_ast =
     Node ''File'' (Some 0) (Some 37) [] []
       [(''program'',
         Node ''Program'' (Some 0) (Some 37) [(''sourceType'', ''module'')] []
           [(''body'',
             Node ''VariableDeclaration'' (Some 0) (Some 37) [(''kind'', ''const'')] []
               [(''declarations'',
                 Node ''VariableDeclarator'' (Some 6) (Some 36) [] []
                   [(''id'', Node ''Identifier'' (Some 6) (Some 7) [(''name'', ''h'')] [] []),
                    (''init'',
                     Node ''ArrowFunctionExpression'' (Some 10) (Some 36) [] [''async'']
                       [(''body'',
                         Node ''BlockStatement'' (Some 22) (Some 36) [] []
                           [(''body'',
                             Node ''ExpressionStatement'' (Some 24) (Some 34) [] []
                               [(''expression'',
                                 Node ''AwaitExpression'' (Some 24) (Some 33) [] []
                                   [(''argument'',
                                     Node ''CallExpression'' (Some 30) (Some 33) [] []
                                       [(''callee'',
                                         Node ''Identifier'' (Some 30) (Some 31)
                                           [(''name'', ''g'')] [] [])])])])])])])])])]"

definition bigint_code :: string where
  "bigint_code = ''1n''"

definition bigint_ast :: node where
  "bigint_ast =
     Node ''File'' (Some 0) (Some 2) [] []
       [(''program'',
         Node ''Program'' (Some 0) (Some 2) [(''sourceType'', ''module'')] []
           [(''body'',
             Node ''ExpressionStatement'' (Some 0) (Some 2) [] []
               [(''expression'',
                 Node ''BigIntLiteral'' (Some 0) (Some 2)
                   [(''value'', ''1''), (''raw'', ''1n'')] [] [])])])]"

text \<open>
  The tree for \<^verbatim>\<open>try {} catch (A) { import A = B.C; }\<close>, which the parser accepts, and
  what the traversal library throws when it registers the second declaration of \<^verbatim>\<open>A\<close> in
  the scope of the catch clause.
\<close>

definition catch_import_code :: string where
  "catch_import_code = ''try {} catch (A) { import A = B.C; }''"

definition catch_import_ast :: node where
  "catch_import_ast =
     Node ''File'' (Some 0) (Some 36) [] []
       [(''program'',
         Node ''Program'' (Some 0) (Some 36) [(''sourceType'', ''module'')] []
           [(''body'',
             Node ''TryStatement'' (Some 0) (Some 36) [] []
               [(''block'', Node ''BlockStatement'' (Some 4) (Some 6) [] [] []),
                (''handler'',
                 Node ''CatchClause'' (Some 7) (Some 36) [] []
                   [(''param'', Node ''Identifier'' (Some 14) (Some 15) [(''name'', ''A'')] [] []),
                    (''body'',
                     Node ''BlockStatement'' (Some 17) (Some 36) [] []
                       [(''body'',
                         Node ''TSImportEqualsDeclaration'' (Some 19) (Some 34)
                           [(''importKind'', ''value'')] []
                           [(''id'',
                             Node ''Identifier'' (Some 26) (Some 27) [(''name'', ''A'')] [] []),
                            (''moduleReference'',
                             Node ''TSQualifiedName'' (Some 30) (Some 33) [] []
                               [(''left'',
                                 Node ''Identifier'' (Some 30) (Some 31)
                                   [(''name'', ''B'')] [] []),
                                (''right'',
                                 Node ''Identifier'' (Some 32) (Some 33)
                                   [(''name'', ''C'')] [] [])])])])])])])]"

definition duplicate_declaration :: thrown where
  "duplicate_declaration = Error (''Duplicate declaration '' @ [CHR 0x22] @ ''A'' @ [CHR 0x22])"

section \<open>Notions used to state the properties\<close>

text \<open>
  Following the words of the specification for top-level await: no function-like
  ancestor (function declaration or expression, arrow function, object or class method)
  lies between the await and the document root on the chain of scopes, which starts with
  the scope the await is in.
\<close>

fun no_function_ancestor :: "scope \<Rightarrow> bool" where
  "no_function_ancestor (Scope ty outer) =
     (ty \<notin> set [''FunctionDeclaration'', ''FunctionExpression'', ''ArrowFunctionExpression'',
                 ''ObjectMethod'', ''ClassMethod''] \<and>
      (case outer of None \<Rightarrow> True | Some sc \<Rightarrow> no_function_ancestor sc))"

text \<open>
  The keys that visitors record with \<^verbatim>\<open>detectedFeatures.add\<close> alone, without a snippet,
  and the state of an accumulator in which every other recorded key has at least one
  evidence and every evidence of a key is an object of the store.
\<close>

definition evidence_free_keys :: "string list" where
  "evidence_free_keys = [''method-definition'', ''import-statement'', ''export-statement'',
     ''dynamic-import'', ''numeric-separators'', ''bigint'']"

definition evidenced :: "state \<Rightarrow> bool" where
  "evidenced st \<longleftrightarrow>
     (\<forall>k \<in> set (detectedFeatures st).
        k \<in> set evidence_free_keys \<or> (\<exists>r rs. featureSnippets st k = Some (r # rs))) \<and>
     (\<forall>k rs. featureSnippets st k = Some rs \<longrightarrow> (\<forall>r \<in> set rs. r < length (heap st)))"

text \<open>The state of an accumulator whose recorded keys are all keys of the catalogue.\<close>

definition known :: "state \<Rightarrow> bool" where
  "known st \<longleftrightarrow> set (detectedFeatures st) \<subseteq> set catalogue_keys"

definition preserves :: "('s \<Rightarrow> bool) \<Rightarrow> ('s \<Rightarrow> 's) \<Rightarrow> bool" where
  "preserves P f \<longleftrightarrow> (\<forall>st. P st \<longrightarrow> P (f st))"

text \<open>Every node of a tree carries both offsets, as the nodes the parser builds do.\<close>

fun has_offsets :: "node \<Rightarrow> bool" where
  "has_offsets (Node ty s e strs fl kids) =
     (s \<noteq> None \<and> e \<noteq> None \<and> list_all (\<lambda>(r, c). has_offsets c) kids)"

text \<open>
  The words of the specification on the matrix, written without the functions of the
  code. A digit is a character with a code from 48 to 57. Stripping keeps the digits and
  the periods of a version string. The floating-point value of a text is the value of
  its longest prefix that is a decimal literal (digits, then optionally a period and
  digits, or a period and digits), read digit by digit as a rational, and there is none
  when no such prefix exists.
\<close>

definition is_digit_code :: "char \<Rightarrow> bool" where
  "is_digit_code c \<longleftrightarrow> 48 \<le> (of_char c :: nat) \<and> (of_char c :: nat) \<le> 57"

definition digit_value :: "char \<Rightarrow> rat" where
  "digit_value c = of_nat (of_char c - 48)"

fun numeric_text :: "string \<Rightarrow> string" where
  "numeric_text [] = []"
| "numeric_text (c # cs) =
     (if is_digit_code c \<or> c = CHR ''.'' then c # numeric_text cs else numeric_text cs)"

fun fraction_value :: "string \<Rightarrow> rat" where
  "fraction_value [] = 0"
| "fraction_value (c # cs) =
     (if is_digit_code c then (digit_value c + fraction_value cs) / 10 else 0)"

fun integer_value :: "rat \<Rightarrow> string \<Rightarrow> rat" where
  "integer_value acc [] = acc"
| "integer_value acc (c # cs) =
     (if is_digit_code c then integer_value (10 * acc + digit_value c) cs
      else if c = CHR ''.'' then acc + fraction_value cs
      else acc)"

fun decimal_value :: "string \<Rightarrow> rat option" where
  "decimal_value [] = None"
| "decimal_value (c # cs) =
     (if is_digit_code c then Some (integer_value 0 (c # cs))
      else if c = CHR ''.'' then
        (case cs of
           [] \<Rightarrow> None
         | d # ds \<Rightarrow> if is_digit_code d then Some (fraction_value cs) else None)
      else None)"

text \<open>
  The values that survive in one slot: the slot's string of every feature, without the
  entries \<^verbatim>\<open>No\<close>, each stripped and read, without those that have no value.
\<close>

definition surviving_values :: "(VersionRecord \<Rightarrow> string) \<Rightarrow> DetectedFeature list \<Rightarrow> rat list" where
  "surviving_values browser fs =
     List.map_filter (\<lambda>version. decimal_value (numeric_text version))
       (filter (\<lambda>version. version \<noteq> ''No'') (map (\<lambda>f. browser (support f)) fs))"

text \<open>
  A number as the host language prints it in the range of the model: digits of the
  integer part without a leading zero (a single \<^verbatim>\<open>0\<close> for zero), and, when there is a
  fraction, a period and the digits of the fraction without a trailing zero.
\<close>

definition canonical_decimal :: "string \<Rightarrow> bool" where
  "canonical_decimal t \<longleftrightarrow>
     (let ip = takeWhile is_digit_code t; rest = dropWhile is_digit_code t
      in ip \<noteq> [] \<and> (ip = ''0'' \<or> hd ip \<noteq> CHR ''0'') \<and>
         (rest = [] \<or>
          (hd rest = CHR ''.'' \<and> tl rest \<noteq> [] \<and> list_all is_digit_code (tl rest) \<and>
           last rest \<noteq> CHR ''0'')))"

text \<open>
  What the specification says of one slot of the matrix: \<^verbatim>\<open>No\<close> when no value survives,
  and otherwise the maximum surviving value, printed as a number and followed by \<^verbatim>\<open>+\<close>,
  so that the numeric prefix of the slot is that maximum.
\<close>

definition slot_is_maximum :: "(VersionRecord \<Rightarrow> string) \<Rightarrow> DetectedFeature list \<Rightarrow> string \<Rightarrow> bool" where
  "slot_is_maximum browser fs result \<longleftrightarrow>
     (if surviving_values browser fs = [] then result = ''No''
      else (\<exists>t. result = t @ ''+'' \<and> canonical_decimal t \<and>
                decimal_value t = Some (Max (set (surviving_values browser fs)))) \<and>
           decimal_value result = Some (Max (set (surviving_values browser fs))))"

text \<open>
  Three features of the catalogue, as the aggregator builds them, with a marked
  version (\<^verbatim>\<open>11*\<close>), a fractional one (\<^verbatim>\<open>15.4+\<close>) and unsupported slots (\<^verbatim>\<open>No\<close>, \<^verbatim>\<open>No*\<close>).
\<close>

definition example_features :: "DetectedFeature list" where
  "example_features =
     buildFeatures (initial_state\<lparr> detectedFeatures :=
       [''const-declaration'', ''array-at'', ''import-assertions''] \<rparr>)"

section \<open>Properties of the snippet extractor\<close>

lemma cumulative_0 [simp]: "cumulative ls 0 = 0" by (simp add: cumulative_def)


lemma split_lines_nonempty [simp]: "split_lines s \<noteq> []"
  by (induction s) (auto split: list.splits)





section \<open>Properties of the analysis\<close>

lemma startsWith_single: "startsWith s [c] = (case s of [] \<Rightarrow> False | d # ds \<Rightarrow> d = c)"
  by (cases s) simp_all

lemma includes_single: "includes' s [c] = (c \<in> set s)"
  by (induction s) (auto simp: startsWith_single)

lemma analyzeCode_Inr:
  "analyzeCode parse crawl code = Inr r \<Longrightarrow>
     \<exists>ast. parse code = Inr ast \<and> crawl ast = None \<and>
           r = buildResult (traverse code ast (hashbang code))"
  by (auto simp: analyzeCode_def analyzeTree_def split: sum.splits option.splits)

text \<open>
  Claim C7. When the parser fails to produce a tree, the call is rejected with the one
  error of the analysis, whose message is \<^verbatim>\<open>Failed to parse JavaScript code: \<close> followed by
  the parser's own message, and no result is returned.
\<close>

theorem parse_failure_surfaced:
  assumes "parse code = Inl t"
  shows "analyzeCode parse crawl code =
           Inl (''Failed to parse JavaScript code: '' @
                (case t of Error message \<Rightarrow> message | NotAnError \<Rightarrow> ''Unknown error'')) \<and>
         (\<forall>r. analyzeCode parse crawl code \<noteq> Inr r)"
  using assms by (simp add: analyzeCode_def failure_message_def)

theorem parse_failure_surfaced_witness:
  "(\<lambda>c. Inl (Error ''Unexpected token (1:1)'')) ''{'' = Inl (Error ''Unexpected token (1:1)'') \<and>
   analyzeCode (\<lambda>c. Inl (Error ''Unexpected token (1:1)'')) (\<lambda>t. None) ''{'' =
     Inl ''Failed to parse JavaScript code: Unexpected token (1:1)'' \<and>
   (\<forall>r. analyzeCode (\<lambda>c. Inl (Error ''Unexpected token (1:1)'')) (\<lambda>t. None) ''{'' \<noteq> Inr r)"
  using parse_failure_surfaced [of "\<lambda>c. Inl (Error ''Unexpected token (1:1)'')" "''{''"
      "Error ''Unexpected token (1:1)''" "\<lambda>t. None"]
  by simp

text \<open>
  Claim C8. For every successful analysis, \<^verbatim>\<open>totalFeatures\<close> is the number of returned
  features, \<^verbatim>\<open>modernFeatures\<close> the number of those whose \<^verbatim>\<open>ie\<close> slot is \<^verbatim>\<open>No\<close> or contains
  the marker \<^verbatim>\<open>*\<close>, and \<^verbatim>\<open>legacySupport\<close> holds exactly when no returned feature has the
  \<^verbatim>\<open>ie\<close> slot \<^verbatim>\<open>No\<close>.
\<close>

theorem summary_counts:
  assumes "analyzeCode parse crawl code = Inr r"
  shows "totalFeatures (summary r) = length (features r) \<and>
         modernFeatures (summary r) =
           length (filter (\<lambda>f. ie (support f) = ''No'' \<or> CHR ''*'' \<in> set (ie (support f)))
                     (features r)) \<and>
         (legacySupport (summary r) \<longleftrightarrow> (\<forall>f \<in> set (features r). ie (support f) \<noteq> ''No''))"
proof -
  from assms obtain ast where r: "r = buildResult (traverse code ast (hashbang code))"
    using analyzeCode_Inr by blast
  show ?thesis
    by (simp add: r buildResult_def Let_def countModernFeatures_def allLegacySupport_def
        includes_single list_all_iff)
qed

lemma arr_at_succeeds:
  "analyzeCode (\<lambda>c. Inr arr_at_ast) (\<lambda>t. None) arr_at_code =
     Inr (analyzeTree arr_at_code arr_at_ast)"
  by (simp add: analyzeCode_def)

theorem summary_counts_witness:
  "analyzeCode (\<lambda>c. Inr arr_at_ast) (\<lambda>t. None) arr_at_code =
     Inr (analyzeTree arr_at_code arr_at_ast) \<and>
   totalFeatures (summary (analyzeTree arr_at_code arr_at_ast)) =
     length (features (analyzeTree arr_at_code arr_at_ast)) \<and>
   modernFeatures (summary (analyzeTree arr_at_code arr_at_ast)) =
     length (filter (\<lambda>f. ie (support f) = ''No'' \<or> CHR ''*'' \<in> set (ie (support f)))
               (features (analyzeTree arr_at_code arr_at_ast))) \<and>
   (legacySupport (summary (analyzeTree arr_at_code arr_at_ast)) \<longleftrightarrow>
      (\<forall>f \<in> set (features (analyzeTree arr_at_code arr_at_ast)). ie (support f) \<noteq> ''No''))"
  using summary_counts [OF arr_at_succeeds] arr_at_succeeds by blast

lemma empty_input_detects_nothing:
  "detectedFeatures (traverse [] empty_ast (hashbang [])) = []"
  by code_simp

text \<open>
  Claim C10, for inputs on which the traversal does not throw. For a parseable input on
  which the traversal library does not throw and in which nothing is detected, the
  analysis succeeds with no features, the counts 0, the legacy flag true and \<^verbatim>\<open>No\<close> in all
  five slots of the matrix. The empty input is such an input.
\<close>

theorem no_features_result:
  assumes "parse code = Inr ast"
    and "crawl ast = None"
    and "detectedFeatures (traverse code ast (hashbang code)) = []"
  shows "analyzeCode parse crawl code =
           Inr \<lparr> features = [],
                 summary = \<lparr> totalFeatures = 0, modernFeatures = 0, legacySupport = True \<rparr>,
                 minimumVersions = \<lparr> chrome = ''No'', firefox = ''No'', safari = ''No'',
                                     edge = ''No'', ie = ''No'' \<rparr> \<rparr>"
  using assms
  by (simp add: analyzeCode_def analyzeTree_def buildResult_def buildFeatures_def
      countModernFeatures_def allLegacySupport_def calculateMinimumVersions_def
      minimumVersion_def slotVersions_def)

theorem no_features_result_witness:
  "(\<lambda>c. Inr empty_ast) [] = Inr empty_ast \<and>
   (\<lambda>t. None :: thrown option) empty_ast = None \<and>
   detectedFeatures (traverse [] empty_ast (hashbang [])) = [] \<and>
   analyzeCode (\<lambda>c. Inr empty_ast) (\<lambda>t. None) [] =
           Inr \<lparr> features = [],
                 summary = \<lparr> totalFeatures = 0, modernFeatures = 0, legacySupport = True \<rparr>,
                 minimumVersions = \<lparr> chrome = ''No'', firefox = ''No'', safari = ''No'',
                                     edge = ''No'', ie = ''No'' \<rparr> \<rparr>"
  using no_features_result [of "\<lambda>c. Inr empty_ast" "[]" empty_ast "\<lambda>t. None"]
    empty_input_detects_nothing
  by simp

text \<open>
  Claim C10 as stated, for every parseable input in which no rule fires, fails where the
  traversal throws: the parser accepts \<^verbatim>\<open>try {} catch (A) { import A = B.C; }\<close>, no rule
  fires in its tree, and the traversal library throws on the duplicate declaration of
  \<^verbatim>\<open>A\<close>; the call is rejected with that message behind the prefix of a parse failure and
  returns no result.
\<close>

theorem traversal_failure_counterexample:
  "(\<lambda>c. Inr catch_import_ast) catch_import_code = Inr catch_import_ast \<and>
   detectedFeatures (traverse catch_import_code catch_import_ast (hashbang catch_import_code)) = [] \<and>
   analyzeCode (\<lambda>c. Inr catch_import_ast) (\<lambda>t. Some duplicate_declaration) catch_import_code =
     Inl (''Failed to parse JavaScript code: Duplicate declaration '' @
          [CHR 0x22] @ ''A'' @ [CHR 0x22]) \<and>
   (\<forall>r. analyzeCode (\<lambda>c. Inr catch_import_ast) (\<lambda>t. Some duplicate_declaration)
          catch_import_code \<noteq> Inr r)"
proof -
  have "detectedFeatures
          (traverse catch_import_code catch_import_ast (hashbang catch_import_code)) = []"
    by code_simp
  then show ?thesis
    by (simp add: analyzeCode_def failure_message_def duplicate_declaration_def)
qed

section \<open>Evidence sets and top-level await\<close>

lemma addFeature_twice:
  "featureSnippets (addFeature code k (Some s) (Some e)
                     (addFeature code k (Some s) (Some e) initial_state)) k = Some [0, 1] \<and>
   heap (addFeature code k (Some s) (Some e)
          (addFeature code k (Some s) (Some e) initial_state)) =
     [extractSnippet code s e, extractSnippet code s e]"
  by (simp add: addFeature_def detect_def set_add_def initial_state_def Let_def)

text \<open>
  Claim C1 says that the same span submitted twice for the same key leaves one stored
  evidence. The set of a key holds snippet objects and compares them by reference, and
  every submission makes a new object, so both are kept. The visitor of call
  expressions submits the span of a call of \<^verbatim>\<open>at\<close> twice for \<^verbatim>\<open>array-at\<close> and for
  \<^verbatim>\<open>string-at\<close>: for the input \<^verbatim>\<open>arr.at(0)\<close> the returned features carry the same evidence
  twice.
\<close>

theorem duplicate_evidence_kept:
  "map (\<lambda>f. (feature f, codeSnippets f)) (features (analyzeTree arr_at_code arr_at_ast)) =
     [(''Array.at()'', [extractSnippet arr_at_code 0 9, extractSnippet arr_at_code 0 9]),
      (''String.at()'', [extractSnippet arr_at_code 0 9, extractSnippet arr_at_code 0 9]),
      (''TypedArray.at()'', [extractSnippet arr_at_code 0 9])]"
  by code_simp

text \<open>
  Claim C2 says that for \<^verbatim>\<open>async function f() { await g(); }\<close> the analysis detects
  async/await but not top-level await. The visitor starts its walk at the parent of the
  scope the await is in, which here is the scope of the program, and never looks at the
  scope of the function itself: top-level await is detected too, with the span of the
  await as its evidence.
\<close>

theorem await_in_async_function_reported_top_level:
  "map (\<lambda>f. (feature f, map matchText (codeSnippets f)))
     (features (analyzeTree async_function_code async_function_ast)) =
     [(''Async/Await'', [''async function f() { await g(); }'', ''await g()'']),
      (''Top-level Await'', [''await g()''])]"
  by code_simp

lemma top_level_await_detected:
  "map (\<lambda>f. (feature f, map matchText (codeSnippets f)))
     (features (analyzeTree top_await_code top_await_ast)) =
     [(''Async/Await'', [''await g()'']), (''Top-level Await'', [''await g()''])]"
  by code_simp

lemma isTopLevel_program_parent:
  "isTopLevel \<lparr> node = n, scope = Scope ty (Some (Scope ''Program'' None)) \<rparr>"
  by (simp add: isTopLevel_def)

text \<open>
  Claim C3 says that top-level await is recorded exactly when no function-like ancestor
  lies between the await and the root on the chain of scopes. Whatever opens the scope
  the await is in, a function included, the visitor records top-level await when the
  next scope is the program's; an await directly in the body of an arrow function has a
  function-like ancestor and is recorded as top-level, as for the input
  \<^verbatim>\<open>const h = async () => { await g(); };\<close>.
\<close>

theorem await_in_arrow_function_reported_top_level:
  "detectedFeatures (AwaitExpression code
      \<lparr> node = n, scope = Scope ty (Some (Scope ''Program'' None)) \<rparr> initial_state) =
     [''async-await'', ''top-level-await''] \<and>
   \<not> no_function_ancestor (Scope ''ArrowFunctionExpression'' (Some (Scope ''Program'' None))) \<and>
   map feature (features (analyzeTree arrow_await_code arrow_await_ast)) =
     [''Const Declaration'', ''Arrow Functions'', ''Async/Await'', ''Top-level Await'']"
proof -
  have "detectedFeatures (AwaitExpression code
      \<lparr> node = n, scope = Scope ty (Some (Scope ''Program'' None)) \<rparr> initial_state) =
     [''async-await'', ''top-level-await'']"
    by (simp add: AwaitExpression_def seq_def whenever_def isTopLevel_def addAt_def
        addFeature_def detect_def set_add_def initial_state_def Let_def split: option.splits)
  moreover have
    "\<not> no_function_ancestor (Scope ''ArrowFunctionExpression'' (Some (Scope ''Program'' None)))"
    by simp
  moreover have "map feature (features (analyzeTree arrow_await_code arrow_await_ast)) =
     [''Const Declaration'', ''Arrow Functions'', ''Async/Await'', ''Top-level Await'']"
    by code_simp
  ultimately show ?thesis by blast
qed

text \<open>
  The scope of a path that is the discriminant of a switch statement, or inside the key
  of a method, is the scope outside the switch statement or the method.
\<close>

lemma discriminant_has_outer_scope:
  "path_scope [(''discriminant'', ''AwaitExpression''), (''body'', ''SwitchStatement''),
               (''body'', ''BlockStatement''), (''body'', ''FunctionDeclaration'')] =
     Scope ''FunctionDeclaration'' (Some (Scope ''Program'' None))"
  by code_simp

lemma method_key_has_outer_scope:
  "path_scope [(''key'', ''AwaitExpression''), (''properties'', ''ObjectMethod''),
               (''argument'', ''ObjectExpression''), (''body'', ''ReturnStatement''),
               (''body'', ''BlockStatement''), (''body'', ''FunctionDeclaration'')] =
     Scope ''FunctionDeclaration'' (Some (Scope ''Program'' None))"
  by code_simp

section \<open>Evidence of the recorded keys\<close>

lemma evidenced_detect:
  "k \<in> set evidence_free_keys \<Longrightarrow> evidenced st \<Longrightarrow> evidenced (detect k st)"
  by (auto simp: evidenced_def detect_def set_add_def)

lemma evidenced_initial: "evidenced initial_state"
  by (simp add: evidenced_def initial_state_def)

lemma evidenced_addFeature:
  assumes "evidenced st"
  shows "evidenced (addFeature code k (Some s) (Some e) st)"
proof -
  define snippets where "snippets = (case featureSnippets st k of None \<Rightarrow> [] | Some rs \<Rightarrow> rs)"
  define st' where "st' = addFeature code k (Some s) (Some e) st"
  have d: "set (detectedFeatures st') = insert k (set (detectedFeatures st))"
    by (auto simp: st'_def addFeature_def detect_def set_add_def Let_def)
  have h: "length (heap st') = Suc (length (heap st))"
    by (simp add: st'_def addFeature_def detect_def Let_def)
  have fk: "featureSnippets st' k = Some (set_add (length (heap st)) snippets)"
    by (simp add: st'_def addFeature_def detect_def Let_def snippets_def)
  have fo: "\<And>k'. k' \<noteq> k \<Longrightarrow> featureSnippets st' k' = featureSnippets st k'"
    by (simp add: st'_def addFeature_def detect_def Let_def)
  have old: "\<forall>r \<in> set snippets. r < length (heap st)"
  proof (cases "featureSnippets st k")
    case None
    then show ?thesis by (simp add: snippets_def)
  next
    case (Some rs)
    then have "\<forall>r \<in> set rs. r < length (heap st)" using assms by (simp add: evidenced_def)
    then show ?thesis using Some by (simp add: snippets_def)
  qed
  have ne: "\<exists>r rs. set_add (length (heap st)) snippets = r # rs"
    by (cases snippets) (auto simp: set_add_def)
  have valid: "\<forall>r \<in> set (set_add (length (heap st)) snippets). r < length (heap st')"
    using old by (auto simp: set_add_def h less_Suc_eq)
  have 1: "\<forall>k' \<in> set (detectedFeatures st').
        k' \<in> set evidence_free_keys \<or> (\<exists>r rs. featureSnippets st' k' = Some (r # rs))"
  proof
    fix k' assume k': "k' \<in> set (detectedFeatures st')"
    show "k' \<in> set evidence_free_keys \<or> (\<exists>r rs. featureSnippets st' k' = Some (r # rs))"
    proof (cases "k' = k")
      case True
      then show ?thesis using fk ne by auto
    next
      case False
      then have "k' \<in> set (detectedFeatures st)" using k' d by simp
      then show ?thesis using assms False fo by (auto simp: evidenced_def)
    qed
  qed
  have 2: "\<forall>k' rs. featureSnippets st' k' = Some rs \<longrightarrow> (\<forall>r \<in> set rs. r < length (heap st'))"
  proof (intro allI impI)
    fix k' rs assume a: "featureSnippets st' k' = Some rs"
    show "\<forall>r \<in> set rs. r < length (heap st')"
    proof (cases "k' = k")
      case True
      then show ?thesis using a fk valid by simp
    next
      case False
      then have "featureSnippets st k' = Some rs" using a fo by simp
      then have "\<forall>r \<in> set rs. r < length (heap st)" using assms by (auto simp: evidenced_def)
      then show ?thesis using h by auto
    qed
  qed
  show ?thesis using 1 2 unfolding st'_def [symmetric] evidenced_def by blast
qed

lemma preserves_seq: "list_all (preserves P) fs \<Longrightarrow> preserves P (seq fs)"
proof (induction fs)
  case Nil
  then show ?case by (simp add: preserves_def seq_def)
next
  case (Cons f fs)
  then have "preserves P f" "preserves P (seq fs)" by simp_all
  then show ?case by (simp add: preserves_def seq_def)
qed

lemma preserves_whenever: "(b \<Longrightarrow> preserves P f) \<Longrightarrow> preserves P (whenever b f)"
  by (simp add: preserves_def whenever_def)

lemma preserves_addAt:
  "nstart (node p) \<noteq> None \<Longrightarrow> nend (node p) \<noteq> None \<Longrightarrow> preserves evidenced (addAt code p k)"
  by (auto simp: preserves_def addAt_def evidenced_addFeature)

lemma preserves_detect: "k \<in> set evidence_free_keys \<Longrightarrow> preserves evidenced (detect k)"
  by (simp add: preserves_def evidenced_detect)

lemma preserves_fold:
  "(\<And>x. x \<in> set xs \<Longrightarrow> preserves P (g x)) \<Longrightarrow> preserves P (fold g xs)"
proof (induction xs)
  case Nil
  then show ?case by (simp add: preserves_def)
next
  case (Cons x xs)
  then have "preserves P (g x)" "preserves P (fold g xs)" by simp_all
  then show ?case by (simp add: preserves_def)
qed

lemmas pres_intros = preserves_seq preserves_whenever preserves_addAt preserves_detect

lemma visitors_preserve:
  assumes "nstart (node p) \<noteq> None" "nend (node p) \<noteq> None"
  shows "\<forall>(ty, v) \<in> set visitors. preserves evidenced (v code p)"
  using assms
  by (auto simp: visitors_def ArrowFunctionExpression_def VariableDeclaration_def
      TemplateLiteral_def ObjectPattern_def ArrayPattern_def SpreadElement_def RestElement_def
      AwaitExpression_def FunctionDeclaration_def FunctionExpression_def NewExpression_def
      ClassDeclaration_def ClassExpression_def ClassProperty_def PrivateName_def
      ForOfStatement_def OptionalMemberExpression_def OptionalCallExpression_def
      LogicalExpression_def AssignmentExpression_def ObjectProperty_def ObjectMethod_def
      ImportDeclaration_def ExportNamedDeclaration_def ExportDefaultDeclaration_def Import_def
      NumericLiteral_def BigIntLiteral_def CallExpression_def MemberExpression_def
      RegExpLiteral_def ClassPrivateMethod_def Let_def evidence_free_keys_def
      intro!: pres_intros)

lemma preserves_visit:
  assumes "nstart (node p) \<noteq> None" "nend (node p) \<noteq> None"
  shows "preserves evidenced (visit code p)"
proof (cases "map_of visitors (ntype (node p))")
  case None
  then show ?thesis by (simp add: preserves_def visit_def)
next
  case (Some v)
  then have "(ntype (node p), v) \<in> set visitors" by (rule map_of_SomeD)
  then have "preserves evidenced (v code p)" using visitors_preserve [OF assms] by blast
  then show ?thesis using Some by (simp add: preserves_def visit_def)
qed

lemma preserves_comp: "preserves P f \<Longrightarrow> preserves P g \<Longrightarrow> preserves P (\<lambda>st. g (f st))"
  by (simp add: preserves_def)

lemma preserves_traverseNode:
  "has_offsets n \<Longrightarrow> preserves evidenced (traverseNode code anc key n)"
proof (induction n arbitrary: anc key)
  case (Node ty s e strs fl kids)
  define p where
    "p = \<lparr> node = Node ty s e strs fl kids, scope = path_scope ((key, ty) # anc) \<rparr>"
  have v: "preserves evidenced (visit code p)"
    using Node.prems by (intro preserves_visit) (simp_all add: p_def)
  have k: "preserves evidenced (fold (\<lambda>(r, c). traverseNode code ((key, ty) # anc) r c) kids)"
  proof (rule preserves_fold)
    fix x assume x: "x \<in> set kids"
    obtain r c where rc: "x = (r, c)" by (cases x)
    have "has_offsets c" using Node.prems x rc by (auto simp: list_all_iff)
    moreover have "c \<in> Basic_BNFs.snds x" using rc by simp
    ultimately have "preserves evidenced (traverseNode code ((key, ty) # anc) r c)"
      using Node.IH x by blast
    then show "preserves evidenced ((\<lambda>(r, c). traverseNode code ((key, ty) # anc) r c) x)"
      using rc by simp
  qed
  have "traverseNode code anc key (Node ty s e strs fl kids) =
        (\<lambda>st. fold (\<lambda>(r, c). traverseNode code ((key, ty) # anc) r c) kids (visit code p st))"
    by (rule ext) (simp add: p_def)
  then show ?case using preserves_comp [OF v k] by simp
qed

lemma has_offsets_child:
  assumes "has_offsets n" "child n k = Some c"
  shows "has_offsets c"
proof -
  obtain ty s e strs fl kids where n: "n = Node ty s e strs fl kids" by (cases n)
  from assms(2) have "c \<in> set (children n k)"
    by (auto simp: child_def split: list.splits)
  then have "\<exists>r. (r, c) \<in> set kids" by (auto simp: children_def n)
  then show ?thesis using assms(1) by (auto simp: n list_all_iff)
qed

lemma has_offsets_kids:
  assumes "has_offsets n" "(r, c) \<in> set (nkids n)"
  shows "has_offsets c"
  using assms by (cases n) (auto simp: list_all_iff)

lemma has_offsets_span: "has_offsets n \<Longrightarrow> nstart n \<noteq> None \<and> nend n \<noteq> None"
  by (cases n) simp

lemma preserves_traverse:
  assumes "has_offsets ast"
  shows "preserves evidenced (traverse code ast)"
proof (cases "child ast ''program''")
  case None
  then show ?thesis by (simp add: preserves_def traverse_def)
next
  case (Some program)
  then have hp: "has_offsets program" using assms has_offsets_child by blast
  have v: "preserves evidenced (visit code \<lparr> node = program, scope = path_scope [] \<rparr>)"
    using has_offsets_span [OF hp] by (intro preserves_visit) simp_all
  have k: "preserves evidenced (fold (\<lambda>(r, c). traverseNode code [] r c) (nkids program))"
  proof (rule preserves_fold)
    fix x assume x: "x \<in> set (nkids program)"
    obtain r c where rc: "x = (r, c)" by (cases x)
    have "has_offsets c" using has_offsets_kids [OF hp] x rc by blast
    then show "preserves evidenced ((\<lambda>(r, c). traverseNode code [] r c) x)"
      using rc preserves_traverseNode by simp
  qed
  have "traverse code ast =
        (\<lambda>st. fold (\<lambda>(r, c). traverseNode code [] r c) (nkids program)
                (visit code \<lparr> node = program, scope = path_scope [] \<rparr> st))"
    by (rule ext) (simp add: traverse_def Some)
  then show ?thesis using preserves_comp [OF v k] by simp
qed

lemma evidenced_hashbang: "evidenced (hashbang code)"
  by (simp add: hashbang_def evidenced_initial evidenced_addFeature)

lemma evidenced_buildFeature:
  assumes "evidenced st" "k \<in> set (detectedFeatures st)" "k \<notin> set evidence_free_keys"
    "buildFeature st k = Some f"
  shows "codeSnippets f \<noteq> []"
proof -
  from assms(1-3) obtain r rs where "featureSnippets st k = Some (r # rs)"
    by (auto simp: evidenced_def)
  then show ?thesis using assms(4) by (auto simp: buildFeature_def split: option.splits)
qed

text \<open>
  The rules that call \<^verbatim>\<open>addFeature\<close> give it the offsets of the matched node. When every
  node of the tree carries its offsets, every key the analysis records, other than the
  six that are recorded by \<^verbatim>\<open>detectedFeatures.add\<close> alone, has at least one evidence, held
  in the store, and the feature built for it has a snippet.
\<close>

lemma recorded_keys_have_evidence:
  assumes "has_offsets ast"
  shows "\<forall>k \<in> set (detectedFeatures (traverse code ast (hashbang code))).
           k \<notin> set evidence_free_keys \<longrightarrow>
           (\<exists>r rs. featureSnippets (traverse code ast (hashbang code)) k = Some (r # rs) \<and>
                    r < length (heap (traverse code ast (hashbang code)))) \<and>
           (\<forall>f. buildFeature (traverse code ast (hashbang code)) k = Some f \<longrightarrow>
                  codeSnippets f \<noteq> [])"
proof -
  have ev: "evidenced (traverse code ast (hashbang code))"
    using preserves_traverse [OF assms] evidenced_hashbang by (simp add: preserves_def)
  show ?thesis
  proof (intro ballI impI conjI allI)
    fix k
    assume k: "k \<in> set (detectedFeatures (traverse code ast (hashbang code)))"
      and nf: "k \<notin> set evidence_free_keys"
    from ev k nf obtain r rs where
      f: "featureSnippets (traverse code ast (hashbang code)) k = Some (r # rs)"
      by (auto simp: evidenced_def)
    moreover have "r < length (heap (traverse code ast (hashbang code)))"
      using ev f by (auto simp: evidenced_def)
    ultimately show "\<exists>r rs. featureSnippets (traverse code ast (hashbang code)) k = Some (r # rs) \<and>
                    r < length (heap (traverse code ast (hashbang code)))" by blast
  next
    fix k f
    assume "k \<in> set (detectedFeatures (traverse code ast (hashbang code)))"
      "k \<notin> set evidence_free_keys"
      "buildFeature (traverse code ast (hashbang code)) k = Some f"
    then show "codeSnippets f \<noteq> []" using ev evidenced_buildFeature by blast
  qed
qed

text \<open>
  Claim C4 says that every rule submits the span of the node it matches, so that every
  recorded key has at least one evidence. The rules for \<^verbatim>\<open>ObjectMethod\<close>,
  \<^verbatim>\<open>ExportNamedDeclaration\<close>, \<^verbatim>\<open>ExportDefaultDeclaration\<close>, \<^verbatim>\<open>Import\<close>, \<^verbatim>\<open>NumericLiteral\<close> and
  \<^verbatim>\<open>BigIntLiteral\<close>, and the rule for \<^verbatim>\<open>ImportDeclaration\<close> for its key \<^verbatim>\<open>import-statement\<close>,
  call \<^verbatim>\<open>detectedFeatures.add\<close> alone: for the input \<^verbatim>\<open>1n\<close> the key \<^verbatim>\<open>bigint\<close> is recorded
  with no evidence, and the returned feature has no snippet.
\<close>

theorem bigint_recorded_without_evidence:
  "has_offsets bigint_ast \<and>
   detectedFeatures (traverse bigint_code bigint_ast (hashbang bigint_code)) = [''bigint''] \<and>
   featureSnippets (traverse bigint_code bigint_ast (hashbang bigint_code)) ''bigint'' = None \<and>
   map (\<lambda>f. (feature f, codeSnippets f)) (features (analyzeTree bigint_code bigint_ast)) =
     [(''BigInt'', [])]"
  by code_simp

section \<open>The minimum-version matrix\<close>

lemma catalogue_versions_short:
  "list_all (\<lambda>(k, fs). list_all (\<lambda>browser. length (browser (support fs)) \<le> 5)
                           [chrome, firefox, safari, edge, ie])
     featureMap_entries"
  by code_simp

declare nat_to_string.simps [simp del]

lemma all_digit_chars:
  "\<forall>d \<in> set [0..<10]. isDigit (digit_char d) \<and> digit_of (digit_char d) = d"
  by code_simp

lemma digit_char_ok:
  assumes "d < 10"
  shows "isDigit (digit_char d)" and "digit_of (digit_char d) = d"
  using assms all_digit_chars by simp_all

lemma period_not_digit: "\<not> isDigit CHR ''.''"
  by (simp add: isDigit_def)

lemma plus_not_kept: "\<not> isDigit CHR ''+''" "CHR ''+'' \<noteq> CHR ''.''"
  by (simp_all add: isDigit_def)

lemma foldl_digits:
  "foldl (\<lambda>a c. 10 * a + digit_of c) a ds =
     a * 10 ^ length ds + foldl (\<lambda>a c. 10 * a + digit_of c) 0 ds"
proof (induction ds arbitrary: a)
  case Nil
  show ?case by simp
next
  case (Cons d ds)
  have "foldl (\<lambda>a c. 10 * a + digit_of c) (10 * a + digit_of d) ds =
        (10 * a + digit_of d) * 10 ^ length ds + foldl (\<lambda>a c. 10 * a + digit_of c) 0 ds"
    by (rule Cons.IH)
  moreover have "foldl (\<lambda>a c. 10 * a + digit_of c) (digit_of d) ds =
        digit_of d * 10 ^ length ds + foldl (\<lambda>a c. 10 * a + digit_of c) 0 ds"
    by (rule Cons.IH)
  ultimately show ?case by (simp add: algebra_simps)
qed

lemma digits_val_append:
  "digits_val (xs @ ys) = digits_val xs * 10 ^ length ys + digits_val ys"
  unfolding digits_val_def foldl_append by (rule foldl_digits)

lemma digits_val_single [simp]: "digits_val [c] = digit_of c"
  by (simp add: digits_val_def)

lemma digits_val_Nil [simp]: "digits_val [] = 0"
  by (simp add: digits_val_def)

lemma nat_to_string_props:
  "digits_val (nat_to_string n) = n \<and> (\<forall>c \<in> set (nat_to_string n). isDigit c) \<and>
   nat_to_string n \<noteq> []"
proof (induction n rule: nat_to_string.induct)
  case (1 n)
  show ?case
  proof (cases "n < 10")
    case True
    then show ?thesis by (simp add: nat_to_string.simps [of n] digit_char_ok)
  next
    case False
    have m: "n mod 10 < 10" by simp
    from False 1 have ih: "digits_val (nat_to_string (n div 10)) = n div 10"
      "\<forall>c \<in> set (nat_to_string (n div 10)). isDigit c" by simp_all
    show ?thesis
      using False ih digit_char_ok [OF m]
      by (simp add: nat_to_string.simps [of n] digits_val_append)
  qed
qed

lemma fraction_digits_props:
  "length (fraction_digits k f) = k \<and> (\<forall>c \<in> set (fraction_digits k f). isDigit c) \<and>
   digits_val (fraction_digits k f) = f mod 10 ^ k"
proof (induction k arbitrary: f)
  case 0
  show ?case by simp
next
  case (Suc k)
  have m: "f mod 10 < 10" by simp
  have "f mod (10 * 10 ^ k) = 10 * (f div 10 mod 10 ^ k) + f mod 10"
    by (rule mod_mult2_eq)
  then show ?case
    using Suc.IH [of "f div 10"] digit_char_ok [OF m]
    by (simp add: digits_val_append)
qed

lemma digits_val_zeros: "digits_val (replicate j CHR ''0'') = 0"
  by (induction j) (simp_all add: digits_val_def digit_of_def)

lemma drop_trailing_zeros_split:
  "\<exists>j. ds = drop_trailing_zeros ds @ replicate j CHR ''0''"
proof -
  let ?P = "\<lambda>c. c = CHR ''0''"
  have "rev (rev ds) = rev (takeWhile ?P (rev ds) @ dropWhile ?P (rev ds))"
    by (simp only: takeWhile_dropWhile_id)
  then have "ds = rev (dropWhile ?P (rev ds)) @ rev (takeWhile ?P (rev ds))"
    by (simp only: rev_rev_ident rev_append)
  then have ds: "ds = drop_trailing_zeros ds @ rev (takeWhile ?P (rev ds))"
    by (simp only: drop_trailing_zeros_def)
  have "\<forall>c \<in> set (rev (takeWhile ?P (rev ds))). c = CHR ''0''"
    by (auto dest: set_takeWhileD)
  then have "replicate (length (rev (takeWhile ?P (rev ds)))) CHR ''0'' = rev (takeWhile ?P (rev ds))"
    by (rule replicate_length_same)
  with ds show ?thesis by metis
qed

lemma drop_trailing_zeros_digits:
  "\<forall>c \<in> set ds. isDigit c \<Longrightarrow> \<forall>c \<in> set (drop_trailing_zeros ds). isDigit c"
  by (auto simp: drop_trailing_zeros_def dest: set_dropWhileD)

lemma strip_kept:
  "\<forall>c \<in> set s. isDigit c \<or> c = CHR ''.'' \<Longrightarrow> strip_non_numeric (s @ ''+'') = s"
  by (simp add: strip_non_numeric_def plus_not_kept filter_id_conv)

lemma parseFloat_integer:
  assumes "\<forall>c \<in> set ip. isDigit c" "ip \<noteq> []"
  shows "parseFloat ip = Dec (digits_val ip) 0"
proof -
  have t: "takeWhile isDigit ip = ip" using assms(1) by simp
  have d: "dropWhile isDigit ip = []" using assms(1) by simp
  show ?thesis using assms(2) by (simp add: parseFloat_def Let_def t d)
qed

lemma parseFloat_fraction:
  assumes "\<forall>c \<in> set ip. isDigit c" "ip \<noteq> []" "\<forall>c \<in> set fp. isDigit c"
  shows "parseFloat (ip @ ''.'' @ fp) = Dec (digits_val (ip @ fp)) (length fp)"
proof -
  have t: "takeWhile isDigit (ip @ CHR ''.'' # fp) = ip"
    using assms(1) period_not_digit by (simp add: takeWhile_tail)
  have d: "dropWhile isDigit (ip @ CHR ''.'' # fp) = CHR ''.'' # fp"
    using assms(1) period_not_digit by (simp add: dropWhile_append3)
  have f: "takeWhile isDigit fp = fp" using assms(3) by simp
  show ?thesis using assms(2) by (simp add: parseFloat_def Let_def t d f)
qed

lemma num_less_iff:
  "num_less (Dec m1 k1) (Dec m2 k2) \<longleftrightarrow> num_val (Dec m1 k1) < num_val (Dec m2 k2)"
proof -
  have "(of_nat m1 :: rat) / 10 ^ k1 < of_nat m2 / 10 ^ k2 \<longleftrightarrow>
        (of_nat m1 :: rat) * 10 ^ k2 < of_nat m2 * 10 ^ k1"
    by (simp add: field_simps)
  also have "\<dots> \<longleftrightarrow> (of_nat (m1 * 10 ^ k2) :: rat) < of_nat (m2 * 10 ^ k1)"
    by simp
  also have "\<dots> \<longleftrightarrow> m1 * 10 ^ k2 < m2 * 10 ^ k1"
    by (rule of_nat_less_iff)
  finally show ?thesis by simp
qed


lemma parseFloat_cases: "parseFloat s = NaN \<or> (\<exists>m k. parseFloat s = Dec m k)"
  by (simp add: parseFloat_def Let_def)

lemma slotVersions_Dec:
  assumes "v \<in> set (slotVersions browser fs)"
  shows "\<exists>m k. v = Dec m k"
proof -
  from assms obtain s where "v = parseFloat s" "v \<noteq> NaN"
    by (auto simp: slotVersions_def isNaN_def)
  then show ?thesis using parseFloat_cases [of s] by auto
qed

lemma digit_codes:
  "\<forall>n \<in> set [48..<58]. isDigit (char_of n)"
  by code_simp

lemma isDigit_iff: "isDigit c \<longleftrightarrow> is_digit_code c"
proof
  assume "isDigit c"
  then show "is_digit_code c" by (auto simp: isDigit_def is_digit_code_def)
next
  assume a: "is_digit_code c"
  then have "48 \<le> (of_char c :: nat) \<and> (of_char c :: nat) < 58"
    by (simp add: is_digit_code_def)
  then have "(of_char c :: nat) \<in> set [48..<58]"
    by (simp only: set_upt atLeastLessThan_iff)
  then have "isDigit (char_of (of_char c :: nat))" using digit_codes by blast
  then show "isDigit c" by simp
qed

lemma is_digit_code_eq: "is_digit_code = isDigit"
  by (rule ext) (simp add: isDigit_iff)

lemma numeric_text_eq: "numeric_text s = strip_non_numeric s"
  by (induction s) (simp_all add: strip_non_numeric_def isDigit_iff)

lemma digit_value_eq: "digit_value c = of_nat (digit_of c)"
  by (simp add: digit_value_def digit_of_def)

lemma digits_val_Cons: "digits_val (c # cs) = digit_of c * 10 ^ length cs + digits_val cs"
  using digits_val_append [of "[c]" cs] by simp

lemma fraction_value_eq:
  "fraction_value cs =
     of_nat (digits_val (takeWhile isDigit cs)) / 10 ^ length (takeWhile isDigit cs)"
proof (induction cs)
  case Nil
  show ?case by simp
next
  case (Cons c cs)
  show ?case
  proof (cases "isDigit c")
    case True
    then show ?thesis
      using Cons.IH
      by (simp add: isDigit_iff [symmetric] digit_value_eq digits_val_Cons field_simps)
  next
    case False
    then show ?thesis by (simp add: isDigit_iff [symmetric])
  qed
qed

lemma integer_value_eq:
  "integer_value acc s =
     acc * 10 ^ length (takeWhile isDigit s) + of_nat (digits_val (takeWhile isDigit s)) +
     (case dropWhile isDigit s of
        [] \<Rightarrow> 0
      | c # r \<Rightarrow> if c = CHR ''.'' then fraction_value r else 0)"
proof (induction s arbitrary: acc)
  case Nil
  show ?case by simp
next
  case (Cons c cs)
  show ?case
  proof (cases "isDigit c")
    case True
    then show ?thesis
      using Cons.IH [of "10 * acc + digit_value c"]
      by (simp add: isDigit_iff [symmetric] digit_value_eq digits_val_Cons algebra_simps)
  next
    case False
    then show ?thesis by (simp add: isDigit_iff [symmetric])
  qed
qed

lemma decimal_value_eq:
  "decimal_value s = (case parseFloat s of Dec m k \<Rightarrow> Some (of_nat m / 10 ^ k) | _ \<Rightarrow> None)"
proof (cases s)
  case Nil
  then show ?thesis by (simp add: parseFloat_def)
next
  case (Cons c cs)
  show ?thesis
  proof (cases "isDigit c")
    case True
    define ip where "ip = takeWhile isDigit s"
    define fp where "fp = (case dropWhile isDigit s of [] \<Rightarrow> []
                            | c # r \<Rightarrow> if c = CHR ''.'' then takeWhile isDigit r else [])"
    have ne: "ip \<noteq> []" using True Cons by (simp add: ip_def)
    have pf: "parseFloat s = Dec (digits_val (ip @ fp)) (length fp)"
      using ne by (simp add: parseFloat_def Let_def ip_def fp_def)
    have fr: "(case dropWhile isDigit s of [] \<Rightarrow> 0
               | c # r \<Rightarrow> if c = CHR ''.'' then fraction_value r else 0) =
              (of_nat (digits_val fp) :: rat) / 10 ^ length fp"
    proof (cases "dropWhile isDigit s")
      case Nil
      show ?thesis unfolding fp_def Nil by simp
    next
      case (Cons d r)
      show ?thesis unfolding fp_def Cons by (simp add: fraction_value_eq)
    qed
    have "decimal_value s = Some (integer_value 0 s)"
      using True Cons by (simp add: isDigit_iff [symmetric])
    also have "integer_value 0 s =
        of_nat (digits_val ip) + (of_nat (digits_val fp) :: rat) / 10 ^ length fp"
      unfolding integer_value_eq fr by (simp add: ip_def)
    also have "\<dots> = of_nat (digits_val (ip @ fp)) / 10 ^ length fp"
      by (simp add: digits_val_append field_simps)
    finally show ?thesis by (simp add: pf)
  next
    case False
    note nd = False
    show ?thesis
    proof (cases "c = CHR ''.''")
      case True
      have tw: "takeWhile isDigit s = []" "dropWhile isDigit s = s"
        using nd Cons by simp_all
      show ?thesis
      proof (cases "takeWhile isDigit cs = []")
        case True
        then have "parseFloat s = NaN"
          using \<open>c = CHR ''.''\<close> Cons nd by (simp add: parseFloat_def Let_def)
        moreover have "decimal_value s = None"
          using True \<open>c = CHR ''.''\<close> Cons nd
          by (cases cs) (auto simp: isDigit_iff [symmetric] split: if_splits)
        ultimately show ?thesis by simp
      next
        case False
        then have pf: "parseFloat s =
            Dec (digits_val (takeWhile isDigit cs)) (length (takeWhile isDigit cs))"
          using \<open>c = CHR ''.''\<close> Cons nd by (simp add: parseFloat_def Let_def)
        have "decimal_value s = Some (fraction_value cs)"
          using False \<open>c = CHR ''.''\<close> Cons nd
          by (cases cs) (auto simp: isDigit_iff [symmetric] split: if_splits)
        then show ?thesis by (simp add: pf fraction_value_eq)
      qed
    next
      case False
      then have "parseFloat s = NaN" using nd Cons by (simp add: parseFloat_def Let_def)
      moreover have "decimal_value s = None"
        using False nd Cons by (simp add: isDigit_iff [symmetric])
      ultimately show ?thesis by simp
    qed
  qed
qed

lemma decimal_value_Dec:
  "parseFloat s = Dec m k \<Longrightarrow> decimal_value s = Some (num_val (Dec m k))"
  by (simp add: decimal_value_eq)

lemma decimal_value_NaN: "parseFloat s = NaN \<Longrightarrow> decimal_value s = None"
  by (simp add: decimal_value_eq)

lemma surviving_values_eq:
  "surviving_values browser fs = map num_val (slotVersions browser fs)"
proof -
  define xs where "xs = filter (\<lambda>version. version \<noteq> ''No'') (map (\<lambda>f. browser (support f)) fs)"
  define g where "g = (\<lambda>version. parseFloat (strip_non_numeric version))"
  define dv where "dv = (\<lambda>version. decimal_value (numeric_text version))"
  have dv: "\<And>x. dv x = (if g x = NaN then None else Some (num_val (g x)))"
    using parseFloat_cases decimal_value_Dec decimal_value_NaN
    unfolding dv_def g_def numeric_text_eq by (metis jsnum.distinct(3))
  have "List.map_filter dv xs = map num_val (filter (\<lambda>v. v \<noteq> NaN) (map g xs))"
    by (induction xs) (simp_all add: List.map_filter_def dv)
  then show ?thesis
    by (simp add: surviving_values_def slotVersions_def isNaN_def xs_def g_def dv_def)
qed

lemma max2_Dec:
  "max2 (Dec m k) (Dec m' k') =
     (if num_val (Dec m k) < num_val (Dec m' k') then Dec m' k' else Dec m k)"
  unfolding max2_def num_less_iff by simp

lemma foldl_max2_Dec:
  assumes "\<forall>u \<in> set vs. \<exists>m k. u = Dec m k"
  shows "\<exists>m' k'. foldl max2 (Dec m k) vs = Dec m' k' \<and>
           (Dec m' k' = Dec m k \<or> Dec m' k' \<in> set vs) \<and>
           num_val (Dec m k) \<le> num_val (Dec m' k') \<and>
           (\<forall>u \<in> set vs. num_val u \<le> num_val (Dec m' k'))"
  using assms
proof (induction vs arbitrary: m k)
  case Nil
  show ?case by simp
next
  case (Cons u vs)
  then obtain mu ku where u: "u = Dec mu ku" by auto
  obtain a b where ab: "max2 (Dec m k) u = Dec a b"
    and ab_in: "Dec a b = Dec m k \<or> Dec a b = u"
    and ge1: "num_val (Dec m k) \<le> num_val (Dec a b)"
    and ge2: "num_val u \<le> num_val (Dec a b)"
    unfolding u max2_Dec by (cases "num_val (Dec m k) < num_val (Dec mu ku)") auto
  from Cons.prems have "\<forall>u \<in> set vs. \<exists>m k. u = Dec m k" by simp
  from Cons.IH [OF this, of a b] obtain m' k' where
    r: "foldl max2 (Dec a b) vs = Dec m' k'"
    and r_in: "Dec m' k' = Dec a b \<or> Dec m' k' \<in> set vs"
    and r1: "num_val (Dec a b) \<le> num_val (Dec m' k')"
    and r2: "\<forall>u \<in> set vs. num_val u \<le> num_val (Dec m' k')"
    by blast
  have "foldl max2 (Dec m k) (u # vs) = Dec m' k'" using ab r by simp
  moreover have "Dec m' k' = Dec m k \<or> Dec m' k' \<in> set (u # vs)"
    using r_in ab_in by auto
  moreover have "num_val (Dec m k) \<le> num_val (Dec m' k')" using ge1 r1 by simp
  moreover have "\<forall>w \<in> set (u # vs). num_val w \<le> num_val (Dec m' k')"
    using ge2 r1 r2 by auto
  ultimately show ?case by blast
qed

lemma Math_max_greatest:
  assumes "vs \<noteq> []" and "\<forall>u \<in> set vs. \<exists>m k. u = Dec m k"
  shows "\<exists>m k. Math_max vs = Dec m k \<and> Dec m k \<in> set vs \<and>
           (\<forall>u \<in> set vs. num_val u \<le> num_val (Dec m k))"
proof -
  from assms obtain v ws m k where vs: "vs = v # ws" and v: "v = Dec m k"
    by (cases vs) auto
  have start: "max2 NegInfinity v = Dec m k" by (simp add: v max2_def)
  from assms(2) vs have "\<forall>u \<in> set ws. \<exists>m k. u = Dec m k" by simp
  from foldl_max2_Dec [OF this, of m k] obtain m' k' where
    r: "foldl max2 (Dec m k) ws = Dec m' k'"
    and r_in: "Dec m' k' = Dec m k \<or> Dec m' k' \<in> set ws"
    and r1: "num_val (Dec m k) \<le> num_val (Dec m' k')"
    and r2: "\<forall>u \<in> set ws. num_val u \<le> num_val (Dec m' k')"
    by blast
  have "Math_max vs = Dec m' k'" using r start by (simp add: Math_max_def vs)
  moreover have "Dec m' k' \<in> set vs" using r_in by (auto simp: vs v)
  moreover have "\<forall>u \<in> set vs. num_val u \<le> num_val (Dec m' k')"
    using r1 r2 by (auto simp: vs v)
  ultimately show ?thesis by blast
qed

lemma parseFloat_integer_tail:
  assumes "\<forall>c \<in> set ip. isDigit c" "ip \<noteq> []" "e = [] \<or> e = ''+''"
  shows "parseFloat (ip @ e) = Dec (digits_val ip) 0"
proof -
  have t: "takeWhile isDigit (ip @ e) = ip"
    using assms(1,3) plus_not_kept by (auto simp: takeWhile_tail)
  have d: "dropWhile isDigit (ip @ e) = e"
    using assms(1,3) plus_not_kept by (auto simp: dropWhile_append3)
  show ?thesis using assms(2,3) by (auto simp: parseFloat_def Let_def t d)
qed

lemma parseFloat_fraction_tail:
  assumes "\<forall>c \<in> set ip. isDigit c" "ip \<noteq> []" "\<forall>c \<in> set fp. isDigit c"
    "e = [] \<or> e = ''+''"
  shows "parseFloat (ip @ ''.'' @ fp @ e) = Dec (digits_val (ip @ fp)) (length fp)"
proof -
  have t: "takeWhile isDigit (ip @ CHR ''.'' # fp @ e) = ip"
    using assms(1) period_not_digit by (simp add: takeWhile_tail)
  have d: "dropWhile isDigit (ip @ CHR ''.'' # fp @ e) = CHR ''.'' # fp @ e"
    using assms(1) period_not_digit by (simp add: dropWhile_append3)
  have f: "takeWhile isDigit (fp @ e) = fp"
    using assms(3,4) plus_not_kept by (auto simp: takeWhile_tail)
  show ?thesis using assms(2) by (simp add: parseFloat_def Let_def t d f)
qed

lemma nonzero_digit_chars:
  "\<forall>d \<in> set [1..<10]. digit_char d \<noteq> CHR ''0''"
  by code_simp

lemma nat_to_string_zero: "nat_to_string 0 = ''0''"
  by code_simp

lemma nat_to_string_leading:
  "0 < n \<Longrightarrow> hd (nat_to_string n) \<noteq> CHR ''0''"
proof (induction n rule: nat_to_string.induct)
  case (1 n)
  show ?case
  proof (cases "n < 10")
    case True
    then have "n \<in> set [1..<10]" using 1(2) by simp
    then have "digit_char n \<noteq> CHR ''0''" using nonzero_digit_chars by blast
    then show ?thesis using True by (simp add: nat_to_string.simps [of n])
  next
    case False
    then have "0 < n div 10" by simp
    then have "hd (nat_to_string (n div 10)) \<noteq> CHR ''0''" using 1(1) False by simp
    moreover have "nat_to_string (n div 10) \<noteq> []" using nat_to_string_props by blast
    ultimately show ?thesis using False by (simp add: nat_to_string.simps [of n])
  qed
qed

lemma drop_trailing_zeros_last:
  assumes "drop_trailing_zeros ds \<noteq> []"
  shows "last (drop_trailing_zeros ds) \<noteq> CHR ''0''"
proof -
  let ?xs = "dropWhile (\<lambda>c. c = CHR ''0'') (rev ds)"
  have ne: "?xs \<noteq> []" using assms by (simp add: drop_trailing_zeros_def)
  then have "\<not> (hd ?xs = CHR ''0'')" by (rule hd_dropWhile)
  moreover have "last (rev ?xs) = hd ?xs" using ne by (simp add: last_rev)
  ultimately show ?thesis by (simp add: drop_trailing_zeros_def)
qed

lemma number_toString_reads_back:
  assumes "e = [] \<or> e = ''+''"
  shows "canonical_decimal (number_toString (Dec m k)) \<and>
         decimal_value (number_toString (Dec m k) @ e) = Some (num_val (Dec m k))"
proof -
  define ip where "ip = nat_to_string (m div 10 ^ k)"
  define f where "f = m mod 10 ^ k"
  have ip: "digits_val ip = m div 10 ^ k" "\<forall>c \<in> set ip. isDigit c" "ip \<noteq> []"
    using nat_to_string_props [of "m div 10 ^ k"] by (simp_all add: ip_def)
  have lead: "ip = ''0'' \<or> hd ip \<noteq> CHR ''0''"
    using nat_to_string_zero nat_to_string_leading [of "m div 10 ^ k"]
    by (cases "m div 10 ^ k = 0") (auto simp: ip_def)
  have m: "m = (m div 10 ^ k) * 10 ^ k + f" by (simp only: f_def div_mult_mod_eq)
  show ?thesis
  proof (cases "f = 0")
    case True
    have str: "number_toString (Dec m k) = ip" using True by (simp add: f_def ip_def)
    have tw: "takeWhile isDigit ip = ip" "dropWhile isDigit ip = []" using ip(2) by simp_all
    have can: "canonical_decimal ip"
      using ip(3) lead by (simp add: canonical_decimal_def is_digit_code_eq tw)
    have "parseFloat (ip @ e) = Dec (m div 10 ^ k) 0"
      using parseFloat_integer_tail [OF ip(2,3) assms] ip(1) by simp
    then have "decimal_value (ip @ e) = Some (num_val (Dec (m div 10 ^ k) 0))"
      by (rule decimal_value_Dec)
    moreover have "num_val (Dec (m div 10 ^ k) 0) = num_val (Dec m k)"
    proof -
      have "(of_nat m :: rat) = of_nat (m div 10 ^ k) * 10 ^ k"
        using m True by (metis add.right_neutral of_nat_mult of_nat_numeral of_nat_power)
      then show ?thesis by simp
    qed
    ultimately show ?thesis using can str by simp
  next
    case False
    define ds where "ds = fraction_digits k f"
    define fp where "fp = drop_trailing_zeros ds"
    have ds: "length ds = k" "\<forall>c \<in> set ds. isDigit c" "digits_val ds = f"
      using fraction_digits_props [of k f] by (simp_all add: ds_def f_def)
    have fpd: "\<forall>c \<in> set fp. isDigit c"
      using ds(2) drop_trailing_zeros_digits by (simp add: fp_def)
    obtain j where j: "ds = fp @ replicate j CHR ''0''"
      using drop_trailing_zeros_split [of ds] by (auto simp: fp_def)
    have k: "k = length fp + j" using ds(1) j by (metis length_append length_replicate)
    have fv: "f = digits_val fp * 10 ^ j"
      using ds(3) j by (metis add.right_neutral digits_val_append digits_val_zeros length_replicate)
    have fpne: "fp \<noteq> []" using fv False by auto
    have fplast: "last fp \<noteq> CHR ''0''"
      using fpne drop_trailing_zeros_last [of ds] by (simp add: fp_def)
    have str: "number_toString (Dec m k) = ip @ ''.'' @ fp"
      using False by (simp add: f_def ip_def fp_def ds_def)
    have tw: "takeWhile isDigit (ip @ CHR ''.'' # fp) = ip"
      using ip(2) period_not_digit by (simp add: takeWhile_tail)
    have dw: "dropWhile isDigit (ip @ CHR ''.'' # fp) = CHR ''.'' # fp"
      using ip(2) period_not_digit by (simp add: dropWhile_append3)
    have can: "canonical_decimal (ip @ ''.'' @ fp)"
      using ip(3) lead fpne fplast fpd
      by (simp add: canonical_decimal_def is_digit_code_eq tw dw list_all_iff)
    have "parseFloat (ip @ ''.'' @ fp @ e) = Dec (digits_val (ip @ fp)) (length fp)"
      by (rule parseFloat_fraction_tail [OF ip(2,3) fpd assms])
    then have dv: "decimal_value ((ip @ ''.'' @ fp) @ e) =
        Some (num_val (Dec (digits_val (ip @ fp)) (length fp)))"
      using decimal_value_Dec by simp
    have "num_val (Dec (digits_val (ip @ fp)) (length fp)) = num_val (Dec m k)"
    proof -
      have "m = (m div 10 ^ k) * (10 ^ length fp * 10 ^ j) + digits_val fp * 10 ^ j"
        using m fv k by (simp add: power_add)
      then have "m = digits_val (ip @ fp) * 10 ^ j"
        by (simp add: digits_val_append ip(1) algebra_simps)
      then have "(of_nat m :: rat) = of_nat (digits_val (ip @ fp)) * 10 ^ j"
        by (metis of_nat_mult of_nat_numeral of_nat_power)
      then show ?thesis by (simp add: k power_add)
    qed
    with dv can str show ?thesis by simp
  qed
qed

lemma minimumVersion_is_maximum:
  "slot_is_maximum browser fs (minimumVersion browser fs)"
proof (cases "slotVersions browser fs = []")
  case True
  then show ?thesis
    by (simp add: slot_is_maximum_def surviving_values_eq minimumVersion_def)
next
  case False
  let ?vs = "slotVersions browser fs"
  have "\<forall>u \<in> set ?vs. \<exists>m k. u = Dec m k" using slotVersions_Dec by blast
  from Math_max_greatest [OF False this] obtain m k where
    mx: "Math_max ?vs = Dec m k" and mem: "Dec m k \<in> set ?vs"
    and ub: "\<forall>u \<in> set ?vs. num_val u \<le> num_val (Dec m k)"
    by blast
  have "Max (num_val ` set ?vs) = num_val (Dec m k)"
  proof (rule Max_eqI)
    show "finite (num_val ` set ?vs)" by simp
    show "\<And>y. y \<in> num_val ` set ?vs \<Longrightarrow> y \<le> num_val (Dec m k)" using ub by auto
    show "num_val (Dec m k) \<in> num_val ` set ?vs" using mem by (rule imageI)
  qed
  then have mxv: "Max (set (surviving_values browser fs)) = num_val (Dec m k)"
    by (simp add: surviving_values_eq)
  have res: "minimumVersion browser fs = number_toString (Dec m k) @ ''+''"
    using False mx by (simp add: minimumVersion_def Let_def)
  have can: "canonical_decimal (number_toString (Dec m k))"
    and v0: "decimal_value (number_toString (Dec m k) @ []) = Some (num_val (Dec m k))"
    using number_toString_reads_back [of "[]" m k] by simp_all
  have v1: "decimal_value (number_toString (Dec m k) @ ''+'') = Some (num_val (Dec m k))"
    using number_toString_reads_back [of "''+''" m k] by simp
  have ne: "surviving_values browser fs \<noteq> []" using False by (simp add: surviving_values_eq)
  have "\<exists>t. minimumVersion browser fs = t @ ''+'' \<and> canonical_decimal t \<and>
            decimal_value t = Some (Max (set (surviving_values browser fs)))"
    using res can v0 mxv by (intro exI [of _ "number_toString (Dec m k)"]) simp
  moreover have "decimal_value (minimumVersion browser fs) =
      Some (Max (set (surviving_values browser fs)))"
    using res v1 mxv by simp
  ultimately show ?thesis using ne by (simp add: slot_is_maximum_def)
qed

text \<open>
  Claim C5. For every list of detected features, whose support records are records of
  the catalogue, and each of the five slots on its own: the slot of the matrix is \<^verbatim>\<open>No\<close>
  when no numeric value survives among the slot's strings of the features (the entries
  \<^verbatim>\<open>No\<close> left out, the others stripped to their digits and periods and read as decimal
  numbers), and otherwise it is the maximum surviving value printed as a number and
  followed by \<^verbatim>\<open>+\<close>, and its numeric prefix is that maximum. The stripping, the reading
  and the printed form are stated by \<open>numeric_text\<close>, \<open>decimal_value\<close> and
  \<open>canonical_decimal\<close>, not by the functions of the code.
\<close>

theorem minimum_versions_are_maxima:
  assumes "\<forall>f \<in> set fs. support f \<in> set catalogue_supports"
  shows "slot_is_maximum chrome fs (chrome (calculateMinimumVersions fs)) \<and>
         slot_is_maximum firefox fs (firefox (calculateMinimumVersions fs)) \<and>
         slot_is_maximum safari fs (safari (calculateMinimumVersions fs)) \<and>
         slot_is_maximum edge fs (edge (calculateMinimumVersions fs)) \<and>
         slot_is_maximum ie fs (ie (calculateMinimumVersions fs))"
  by (simp add: calculateMinimumVersions_def minimumVersion_is_maximum)


lemma example_matrix:
  "map (\<lambda>f. (chrome (support f), firefox (support f), safari (support f), edge (support f),
             ie (support f))) example_features =
     [(''49+'', ''36+'', ''10+'', ''12+'', ''11*''),
      (''92+'', ''90+'', ''15.4+'', ''92+'', ''No''),
      (''91+'', ''No*'', ''No*'', ''91+'', ''No'')] \<and>
   calculateMinimumVersions example_features =
     \<lparr> chrome = ''92+'', firefox = ''90+'', safari = ''15.4+'', edge = ''92+'', ie = ''11+'' \<rparr>"
  by code_simp

lemma example_features_catalogue:
  "list_all (\<lambda>f. support f \<in> set catalogue_supports) example_features"
  by code_simp

theorem minimum_versions_are_maxima_witness:
  "list_all (\<lambda>f. support f \<in> set catalogue_supports) example_features \<and>
   slot_is_maximum chrome example_features ''92+'' \<and>
   slot_is_maximum firefox example_features ''90+'' \<and>
   slot_is_maximum safari example_features ''15.4+'' \<and>
   slot_is_maximum edge example_features ''92+'' \<and>
   slot_is_maximum ie example_features ''11+''"
proof -
  have h: "\<forall>f \<in> set example_features. support f \<in> set catalogue_supports"
    using example_features_catalogue by (simp add: list_all_iff)
  show ?thesis
    using minimum_versions_are_maxima [OF h] example_matrix example_features_catalogue
    by simp
qed

section \<open>Recorded keys and the catalogue\<close>

lemma catalogue_keys_eq:
  "catalogue_keys =
     [''arrow-function'', ''const-declaration'', ''let-declaration'', ''template-literal'',
      ''destructuring'', ''spread-operator'', ''async-await'', ''promise'',
      ''class-declaration'', ''for-of'', ''optional-chaining'', ''nullish-coalescing'',
      ''map-object'', ''set-object'', ''symbol'', ''default-parameters'',
      ''rest-parameters'', ''computed-property'', ''shorthand-property'',
      ''method-definition'', ''generator-function'', ''import-statement'',
      ''export-statement'', ''dynamic-import'', ''array-from'', ''array-find'',
      ''array-findindex'', ''array-includes'', ''array-flat'', ''array-flatmap'',
      ''object-assign'', ''object-keys'', ''object-values'', ''object-entries'',
      ''object-fromentries'', ''string-includes'', ''string-startswith'',
      ''string-endswith'', ''string-repeat'', ''string-padstart'', ''string-padend'',
      ''weakmap'', ''weakset'', ''proxy'', ''reflect'', ''bigint'', ''private-fields'',
      ''static-class-fields'', ''logical-assignment'', ''numeric-separators'',
      ''top-level-await'', ''regex-named-groups'', ''regex-lookbehind'',
      ''regex-unicode-property'', ''regex-s-flag'', ''globalthis'', ''import-meta'',
      ''array-at'', ''string-at'', ''string-replaceall'', ''promise-allsettled'',
      ''promise-any'', ''intl-relativetimeformat'', ''intl-listformat'',
      ''finalizationregistry'', ''weakref'', ''private-methods'', ''array-findlast'',
      ''array-findlastindex'', ''structuredclone'', ''string-matchall'',
      ''array-toreversed'', ''array-tosorted'', ''array-tospliced'', ''array-with'',
      ''string-trimstart'', ''string-trimend'', ''object-hasown'', ''object-groupby'',
      ''json-parse-reviver'', ''temporal'', ''decorators'', ''iterator-helpers'',
      ''atomics'', ''sharedarraybuffer'', ''bigint64array'', ''biguint64array'',
      ''error-cause'', ''aggregate-error'', ''regex-match-indices'', ''hashbang'',
      ''import-assertions'', ''import-attributes'', ''resizable-arraybuffer'',
      ''async-iteration'', ''regex-v-flag'', ''fetch-api'', ''urlsearchparams'',
      ''url-constructor'', ''abortcontroller'', ''intersectionobserver'',
      ''mutationobserver'', ''resizeobserver'', ''array-fromasync'',
      ''string-iswellformed'', ''string-towellformed'', ''performance-now'',
      ''queuemicrotask'', ''crypto-getrandomvalues'', ''crypto-randomuuid'',
      ''typedarray-at'', ''typedarray-with'', ''localstorage'', ''sessionstorage'',
      ''indexeddb'', ''reporterror'']"
  by code_simp

lemma catalogue_keys_own:
  "list_all (\<lambda>k. k \<notin> set object_prototype_properties) catalogue_keys"
  by code_simp

lemma known_detect: "k \<in> set catalogue_keys \<Longrightarrow> known st \<Longrightarrow> known (detect k st)"
  by (auto simp: known_def detect_def set_add_def)

lemma known_addFeature:
  "k \<in> set catalogue_keys \<Longrightarrow> known st \<Longrightarrow> known (addFeature code k s e st)"
  by (auto simp: known_def addFeature_def detect_def set_add_def Let_def split: option.splits)

lemma known_preserved_addAt:
  "k \<in> set catalogue_keys \<Longrightarrow> preserves known (addAt code p k)"
  by (simp add: preserves_def addAt_def known_addFeature)

lemma known_preserved_detect:
  "k \<in> set catalogue_keys \<Longrightarrow> preserves known (detect k)"
  by (simp add: preserves_def known_detect)

lemma visitors_keep_known:
  "\<forall>(ty, v) \<in> set visitors. preserves known (v code p)"
  by (auto simp: visitors_def ArrowFunctionExpression_def VariableDeclaration_def
      TemplateLiteral_def ObjectPattern_def ArrayPattern_def SpreadElement_def RestElement_def
      AwaitExpression_def FunctionDeclaration_def FunctionExpression_def NewExpression_def
      ClassDeclaration_def ClassExpression_def ClassProperty_def PrivateName_def
      ForOfStatement_def OptionalMemberExpression_def OptionalCallExpression_def
      LogicalExpression_def AssignmentExpression_def ObjectProperty_def ObjectMethod_def
      ImportDeclaration_def ExportNamedDeclaration_def ExportDefaultDeclaration_def Import_def
      NumericLiteral_def BigIntLiteral_def CallExpression_def MemberExpression_def
      RegExpLiteral_def ClassPrivateMethod_def Let_def catalogue_keys_eq
      intro!: preserves_seq preserves_whenever known_preserved_addAt known_preserved_detect)

lemma visit_keeps_known: "preserves known (visit code p)"
proof (cases "map_of visitors (ntype (node p))")
  case None
  then show ?thesis by (simp add: preserves_def visit_def)
next
  case (Some v)
  then have "(ntype (node p), v) \<in> set visitors" by (rule map_of_SomeD)
  then have "preserves known (v code p)" using visitors_keep_known by blast
  then show ?thesis using Some by (simp add: preserves_def visit_def)
qed

lemma traverseNode_keeps_known: "preserves known (traverseNode code anc key n)"
proof (induction n arbitrary: anc key)
  case (Node ty s e strs fl kids)
  define p where
    "p = \<lparr> node = Node ty s e strs fl kids, scope = path_scope ((key, ty) # anc) \<rparr>"
  have k: "preserves known (fold (\<lambda>(r, c). traverseNode code ((key, ty) # anc) r c) kids)"
  proof (rule preserves_fold)
    fix x assume x: "x \<in> set kids"
    obtain r c where rc: "x = (r, c)" by (cases x)
    have "c \<in> Basic_BNFs.snds x" using rc by simp
    then have "preserves known (traverseNode code ((key, ty) # anc) r c)"
      using Node.IH x by blast
    then show "preserves known ((\<lambda>(r, c). traverseNode code ((key, ty) # anc) r c) x)"
      using rc by simp
  qed
  have "traverseNode code anc key (Node ty s e strs fl kids) =
        (\<lambda>st. fold (\<lambda>(r, c). traverseNode code ((key, ty) # anc) r c) kids (visit code p st))"
    by (rule ext) (simp add: p_def)
  then show ?case using preserves_comp [OF visit_keeps_known k] by simp
qed

lemma traverse_keeps_known: "preserves known (traverse code ast)"
proof (cases "child ast ''program''")
  case None
  then show ?thesis by (simp add: preserves_def traverse_def)
next
  case (Some program)
  have k: "preserves known (fold (\<lambda>(r, c). traverseNode code [] r c) (nkids program))"
    by (rule preserves_fold) (auto simp: traverseNode_keeps_known)
  have "traverse code ast =
        (\<lambda>st. fold (\<lambda>(r, c). traverseNode code [] r c) (nkids program)
                (visit code \<lparr> node = program, scope = path_scope [] \<rparr> st))"
    by (rule ext) (simp add: traverse_def Some)
  then show ?thesis using preserves_comp [OF visit_keeps_known k] by simp
qed

lemma known_hashbang: "known (hashbang code)"
proof -
  have "known initial_state" by (simp add: known_def initial_state_def)
  moreover have "''hashbang'' \<in> set catalogue_keys" by (simp add: catalogue_keys_eq)
  ultimately show ?thesis by (simp add: hashbang_def known_addFeature)
qed

lemma recorded_keys_in_catalogue:
  assumes "k \<in> set (detectedFeatures (traverse code ast (hashbang code)))"
  shows "featureMap k \<noteq> None \<and> k \<notin> set object_prototype_properties"
proof -
  have "known (traverse code ast (hashbang code))"
    using traverse_keeps_known known_hashbang by (simp add: preserves_def)
  then have k: "k \<in> set catalogue_keys" using assms by (auto simp: known_def)
  then have "k \<in> fst ` set featureMap_entries" by (simp add: catalogue_keys_def)
  then have "featureMap k \<noteq> None" by (simp add: featureMap_def map_of_eq_None_iff)
  moreover have "k \<notin> set object_prototype_properties"
    using k catalogue_keys_own by (simp add: list_all_iff)
  ultimately show ?thesis by simp
qed

lemma filter_Boolean_set: "x \<in> set (filter_Boolean xs) \<longleftrightarrow> Some x \<in> set xs"
  by (induction xs rule: filter_Boolean.induct) auto

lemma filter_Boolean_append: "filter_Boolean (xs @ ys) = filter_Boolean xs @ filter_Boolean ys"
  by (induction xs rule: filter_Boolean.induct) auto

lemma buildFeature_catalogue:
  "buildFeature st k = Some f \<Longrightarrow>
     featureMap k = Some \<lparr> feature = feature f, description = description f,
                            support = support f, notes' = notes' f \<rparr>"
  by (auto simp: buildFeature_def split: option.splits)

lemma buildFeature_detected_update [simp]:
  "buildFeature (st\<lparr>detectedFeatures := ks\<rparr>) = buildFeature st"
  by (rule ext) (simp add: buildFeature_def split: option.splits)

lemma unknown_key:
  "''no-such-feature'' \<notin> set object_prototype_properties \<and> featureMap ''no-such-feature'' = None"
  by code_simp

text \<open>
  Claim C6. Every feature returned by a successful analysis is the catalogue's entry for
  some key. A recorded key without an entry, other than the name of a property that every
  object inherits, adds nothing to the features: it is dropped, and no error arises from
  it. Every key the analysis records has an entry and is no such name.
\<close>

theorem features_in_catalogue:
  "(analyzeCode parse crawl code = Inr r \<longrightarrow>
      (\<forall>f \<in> set (features r).
         \<exists>k. featureMap k = Some \<lparr> feature = feature f, description = description f,
                                    support = support f, notes' = notes' f \<rparr>)) \<and>
   (k' \<notin> set object_prototype_properties \<longrightarrow> featureMap k' = None \<longrightarrow>
      buildFeatures (st\<lparr> detectedFeatures := detectedFeatures st @ [k'] \<rparr>) = buildFeatures st) \<and>
   (\<forall>k \<in> set (detectedFeatures (traverse code ast (hashbang code))).
      featureMap k \<noteq> None \<and> k \<notin> set object_prototype_properties)"
proof (intro conjI impI ballI)
  fix f
  assume a: "analyzeCode parse crawl code = Inr r" and f: "f \<in> set (features r)"
  from a obtain ast' where r: "r = buildResult (traverse code ast' (hashbang code))"
    using analyzeCode_Inr by blast
  from f obtain k where "buildFeature (traverse code ast' (hashbang code)) k = Some f"
    by (auto simp: r buildResult_def Let_def buildFeatures_def filter_Boolean_set)
  then show "\<exists>k. featureMap k = Some \<lparr> feature = feature f, description = description f,
                                    support = support f, notes' = notes' f \<rparr>"
    using buildFeature_catalogue by blast
next
  assume "featureMap k' = None"
  then have "buildFeature st k' = None" by (simp add: buildFeature_def)
  then show "buildFeatures (st\<lparr> detectedFeatures := detectedFeatures st @ [k'] \<rparr>) = buildFeatures st"
    by (simp add: buildFeatures_def filter_Boolean_append)
next
  fix k assume "k \<in> set (detectedFeatures (traverse code ast (hashbang code)))"
  then show "featureMap k \<noteq> None" using recorded_keys_in_catalogue by blast
next
  fix k assume "k \<in> set (detectedFeatures (traverse code ast (hashbang code)))"
  then show "k \<notin> set object_prototype_properties" using recorded_keys_in_catalogue by blast
qed

theorem features_in_catalogue_witness:
  "analyzeCode (\<lambda>c. Inr arr_at_ast) (\<lambda>t. None) arr_at_code =
     Inr (analyzeTree arr_at_code arr_at_ast) \<and>
   ''no-such-feature'' \<notin> set object_prototype_properties \<and>
   featureMap ''no-such-feature'' = None \<and>
   list_all
     (\<lambda>f. \<exists>k. featureMap k = Some \<lparr> feature = feature f, description = description f,
                                     support = support f, notes' = notes' f \<rparr>)
     (features (analyzeTree arr_at_code arr_at_ast)) \<and>
   buildFeatures (initial_state\<lparr> detectedFeatures :=
                    detectedFeatures initial_state @ [''no-such-feature''] \<rparr>) =
     buildFeatures initial_state \<and>
   list_all (\<lambda>k. featureMap k \<noteq> None \<and> k \<notin> set object_prototype_properties)
     (detectedFeatures (traverse arr_at_code arr_at_ast (hashbang arr_at_code)))"
  using features_in_catalogue [of "\<lambda>c. Inr arr_at_ast" "\<lambda>t. None" arr_at_code
      "analyzeTree arr_at_code arr_at_ast" "''no-such-feature''" initial_state arr_at_ast]
    unknown_key arr_at_succeeds
  unfolding list_all_iff by simp

end
